theory Spec2Isabelle
  imports Complex_Main "HOL-Library.List_Lexorder" "HOL-Library.Char_ord"
begin

section \<open>Record model\<close>

text \<open>
  The service record of \<^verbatim>\<open>src/types/api.ts\<close> (\<^verbatim>\<open>ServiceResult\<close>). JavaScript numbers are
  modelled as exact reals (rounding of IEEE doubles is not modelled, and neither are
  \<^verbatim>\<open>NaN\<close> and the infinities); the ward is an integer. \<^verbatim>\<open>null\<close> is \<open>None\<close>.

  A date column holds a string. The code uses such a string in three ways: as a truth
  value (\<^verbatim>\<open>if (s.start_date)\<close>, false for \<^verbatim>\<open>null\<close> and for the empty string), as text
  (inside the duplicate key of the metadata score), and through \<^verbatim>\<open>new Date(str)\<close> as an
  instant. A \<open>date_string\<close> carries the text together with the instant the runtime parses it
  to, in milliseconds since the epoch. Every date string is taken to parse: the model has no
  invalid date.
\<close>

datatype date_string = DateString (raw: string) (getTime: int)

record ServiceResult =
  service_id :: int
  start_date :: "date_string option"
  end_date :: "date_string option"
  service_division_owner :: "string option"
  service_result :: "string option"
  ward :: "int option"
  estimated_cost :: "real option"
  notes_field :: "string option"

text \<open>JavaScript truthiness of a text, a date and a cost field.\<close>

definition truthy_str :: "string option \<Rightarrow> bool" where
  "truthy_str v = (case v of None \<Rightarrow> False | Some s \<Rightarrow> s \<noteq> [])"

definition truthy_date :: "date_string option \<Rightarrow> bool" where
  "truthy_date v = (case v of None \<Rightarrow> False | Some d \<Rightarrow> raw d \<noteq> [])"

definition truthy_cost :: "real option \<Rightarrow> bool" where
  "truthy_cost v = (case v of None \<Rightarrow> False | Some c \<Rightarrow> c \<noteq> 0)"

text \<open>\<^verbatim>\<open>s.estimated_cost || 0\<close>\<close>

definition cost_or_zero :: "ServiceResult \<Rightarrow> real" where
  "cost_or_zero s = (case estimated_cost s of None \<Rightarrow> 0 | Some c \<Rightarrow> c)"

text \<open>
  The instants the calculators read from the system clock: \<^verbatim>\<open>new Date()\<close>, the same instant
  with the year moved one forward, and with the year moved fifty back (\<^verbatim>\<open>setFullYear\<close>).
  One call of a calculator is modelled at one instant.
\<close>

record clock =
  currentDate :: int
  oneYearFuture :: int
  fiftyYearsPast :: int

definition msPerDay :: int where
  "msPerDay = 1000 * 60 * 60 * 24"

section \<open>Strings\<close>

text \<open>
  Template literals print numbers in decimal and \<^verbatim>\<open>null\<close> as the text \<^verbatim>\<open>null\<close>.
\<close>

fun show_nat :: "nat \<Rightarrow> string" where
  "show_nat n =
     (if n < 10 then [''0123456789'' ! n]
      else show_nat (n div 10) @ [''0123456789'' ! (n mod 10)])"

declare show_nat.simps [simp del]

definition show_int :: "int \<Rightarrow> string" where
  "show_int i = (if i < 0 then CHR ''-'' # show_nat (nat (- i)) else show_nat (nat i))"

definition show_date_opt :: "date_string option \<Rightarrow> string" where
  "show_date_opt v = (case v of None \<Rightarrow> ''null'' | Some d \<Rightarrow> raw d)"

definition show_str_opt :: "string option \<Rightarrow> string" where
  "show_str_opt v = (case v of None \<Rightarrow> ''null'' | Some s \<Rightarrow> s)"

definition show_int_opt :: "int option \<Rightarrow> string" where
  "show_int_opt v = (case v of None \<Rightarrow> ''null'' | Some i \<Rightarrow> show_int i)"

text \<open>
  \<^verbatim>\<open>toUpperCase\<close>, \<^verbatim>\<open>toLowerCase\<close> and \<^verbatim>\<open>trim\<close> on ASCII text: letters a to z change case, and
  the white space trimmed is the space, the tab, the line feed, the vertical tab, the form
  feed and the carriage return.
\<close>

definition upper_char :: "char \<Rightarrow> char" where
  "upper_char c =
     (case map_of (zip ''abcdefghijklmnopqrstuvwxyz'' ''ABCDEFGHIJKLMNOPQRSTUVWXYZ'') c of
        Some u \<Rightarrow> u | None \<Rightarrow> c)"

definition lower_char :: "char \<Rightarrow> char" where
  "lower_char c =
     (case map_of (zip ''ABCDEFGHIJKLMNOPQRSTUVWXYZ'' ''abcdefghijklmnopqrstuvwxyz'') c of
        Some l \<Rightarrow> l | None \<Rightarrow> c)"

definition toUpperCase :: "string \<Rightarrow> string" where
  "toUpperCase s = map upper_char s"

definition toLowerCase :: "string \<Rightarrow> string" where
  "toLowerCase s = map lower_char s"

definition is_space :: "char \<Rightarrow> bool" where
  "is_space c = (c \<in> set [CHR '' '', CHR 0x09, CHR 0x0A, CHR 0x0B, CHR 0x0C, CHR 0x0D])"

definition trim :: "string \<Rightarrow> string" where
  "trim s = rev (dropWhile is_space (rev (dropWhile is_space s)))"

section \<open>Quality dimension calculators (data readiness)\<close>

subsection \<open>Accuracy\<close>

text \<open>
  The checks of \<^verbatim>\<open>calculateAccuracy\<close>, in the order of the source. Each check that fires
  adds to \<^verbatim>\<open>invalidRecords\<close> and returns from the callback, so a later check of the same
  record is not reached.
\<close>

definition invalid_ward :: "ServiceResult \<Rightarrow> bool" where
  "invalid_ward s = (case ward s of None \<Rightarrow> False | Some w \<Rightarrow> w < 1 \<or> w > 25)"

definition out_of_window :: "clock \<Rightarrow> date_string \<Rightarrow> bool" where
  "out_of_window clk d = (getTime d > oneYearFuture clk \<or> getTime d < fiftyYearsPast clk)"

definition start_out_of_window :: "clock \<Rightarrow> ServiceResult \<Rightarrow> bool" where
  "start_out_of_window clk s =
     (case start_date s of None \<Rightarrow> False
      | Some d \<Rightarrow> raw d \<noteq> [] \<and> out_of_window clk d)"

definition end_out_of_window :: "clock \<Rightarrow> ServiceResult \<Rightarrow> bool" where
  "end_out_of_window clk s =
     (case end_date s of None \<Rightarrow> False
      | Some d \<Rightarrow> raw d \<noteq> [] \<and> out_of_window clk d)"

definition end_before_start :: "ServiceResult \<Rightarrow> bool" where
  "end_before_start s =
     (case end_date s of None \<Rightarrow> False
      | Some e \<Rightarrow> raw e \<noteq> [] \<and>
          (case start_date s of None \<Rightarrow> False
           | Some b \<Rightarrow> raw b \<noteq> [] \<and> getTime e < getTime b))"

definition negative_cost :: "ServiceResult \<Rightarrow> bool" where
  "negative_cost s = (case estimated_cost s of None \<Rightarrow> False | Some c \<Rightarrow> c < 0)"

definition unrecognized_result :: "ServiceResult \<Rightarrow> bool" where
  "unrecognized_result s =
     (case service_result s of None \<Rightarrow> False
      | Some r \<Rightarrow> r \<noteq> [] \<and> r \<noteq> ''PASS'' \<and> r \<noteq> ''FAIL'' \<and> r \<noteq> ''UNKNOWN'')"

definition accuracy_step :: "clock \<Rightarrow> real \<Rightarrow> ServiceResult \<Rightarrow> real" where
  "accuracy_step clk invalidRecords service =
     (if invalid_ward service then invalidRecords + 1
      else if start_out_of_window clk service then invalidRecords + 1
      else if end_out_of_window clk service then invalidRecords + 1
      else if end_before_start service then invalidRecords + 1
      else if negative_cost service then invalidRecords + 1
      else if unrecognized_result service then invalidRecords + 1
      else if service_result service = Some ''UNKNOWN'' then invalidRecords + 0.5
      else invalidRecords)"

definition calculateAccuracy :: "clock \<Rightarrow> ServiceResult list \<Rightarrow> real" where
  "calculateAccuracy clk services =
     (let totalRecords = length services in
      if totalRecords = 0 then 100
      else
        let invalidRecords = foldl (accuracy_step clk) 0 services;
            validRecords = real totalRecords - invalidRecords
        in (validRecords / real totalRecords) * 100)"

subsection \<open>Consistency\<close>

definition consistency_step :: "nat \<Rightarrow> ServiceResult \<Rightarrow> nat" where
  "consistency_step inconsistentRecords service =
     (if truthy_str (service_result service) \<and> service_result service \<noteq> Some ''UNKNOWN''
         \<and> \<not> truthy_str (service_division_owner service)
      then inconsistentRecords + 1
      else if truthy_cost (estimated_cost service) \<and> cost_or_zero service > 0
         \<and> \<not> (truthy_str (service_division_owner service) \<and> truthy_date (start_date service)
               \<and> truthy_date (end_date service))
      then inconsistentRecords + 1
      else if service_result service = Some ''UNKNOWN'' \<and> truthy_cost (estimated_cost service)
         \<and> cost_or_zero service > 100000
      then inconsistentRecords + 1
      else if truthy_str (service_division_owner service)
         \<and> \<not> (truthy_str (service_result service) \<or> estimated_cost service \<noteq> None
               \<or> ward service \<noteq> None \<or> truthy_date (start_date service)
               \<or> truthy_date (end_date service))
      then inconsistentRecords + 1
      else if truthy_str (service_division_owner service)
         \<and> (let divName = show_str_opt (service_division_owner service) in
              length divName > 3 \<and> (divName = toUpperCase divName \<or> divName = toLowerCase divName))
      then inconsistentRecords + 1
      else inconsistentRecords)"

definition calculateConsistency :: "ServiceResult list \<Rightarrow> real" where
  "calculateConsistency services =
     (let totalRecords = length services in
      if totalRecords = 0 then 100
      else
        let inconsistentRecords = foldl consistency_step 0 services;
            consistentRecords = real totalRecords - real inconsistentRecords
        in (consistentRecords / real totalRecords) * 100)"

subsection \<open>Completeness\<close>

definition hasAllRequiredFields :: "ServiceResult \<Rightarrow> bool" where
  "hasAllRequiredFields service =
     (truthy_str (service_division_owner service) \<and>
      truthy_date (start_date service) \<and>
      truthy_date (end_date service) \<and>
      estimated_cost service \<noteq> None \<and>
      ward service \<noteq> None \<and>
      truthy_str (service_result service) \<and>
      service_result service \<noteq> Some ''UNKNOWN'')"

definition completeness_step :: "nat \<Rightarrow> ServiceResult \<Rightarrow> nat" where
  "completeness_step completeRecords service =
     (if hasAllRequiredFields service then completeRecords + 1 else completeRecords)"

definition calculateCompleteness :: "ServiceResult list \<Rightarrow> real" where
  "calculateCompleteness services =
     (let totalRecords = length services in
      if totalRecords = 0 then 100
      else
        let completeRecords = foldl completeness_step 0 services
        in (real completeRecords / real totalRecords) * 100)"

subsection \<open>Timeliness\<close>

text \<open>
  The date ranges are sorted by their end with \<^verbatim>\<open>Array.prototype.sort\<close>, a stable sort;
  \<open>sort_key\<close> is one. The loop over consecutive ranges adds the whole days of every
  positive gap.
\<close>

fun gap_loop :: "int \<Rightarrow> (int \<times> int) list \<Rightarrow> int" where
  "gap_loop totalGapDays (prev # cur # rest) =
     (let gap = fst cur - snd prev in
      gap_loop (if gap > 0 then totalGapDays + gap div msPerDay else totalGapDays) (cur # rest))"
| "gap_loop totalGapDays _ = totalGapDays"

definition calculateTimeliness :: "clock \<Rightarrow> ServiceResult list \<Rightarrow> real" where
  "calculateTimeliness clk services =
     (let endDates = map (\<lambda>s. case end_date s of Some d \<Rightarrow> getTime d | None \<Rightarrow> 0)
                       (filter (\<lambda>s. truthy_date (end_date s)) services)
      in
      if length endDates = 0 then 0
      else
        let mostRecentDate = foldl (\<lambda>latest date. if date > latest then date else latest) 0 endDates;
            daysSinceUpdate = (currentDate clk - mostRecentDate) div msPerDay;
            dateRanges =
              sort_key snd
                (map (\<lambda>s. (case start_date s of Some d \<Rightarrow> getTime d | None \<Rightarrow> 0,
                           case end_date s of Some d \<Rightarrow> getTime d | None \<Rightarrow> 0))
                   (filter (\<lambda>s. truthy_date (start_date s) \<and> truthy_date (end_date s)) services));
            totalGapDays = gap_loop 0 dateRanges;
            recencyScore = max 0 (min 100 ((1 - real_of_int daysSinceUpdate / 365) * 100));
            coverageScore =
              (if length dateRanges > 1 then max 0 (100 - real_of_int totalGapDays / 30) else 50)
        in (recencyScore * 0.6) + (coverageScore * 0.4))"

subsection \<open>Metadata quality\<close>

text \<open>
  A JavaScript \<^verbatim>\<open>Set\<close> is a list without repetition, \<^verbatim>\<open>add\<close> is \<open>List.insert\<close> and
  \<^verbatim>\<open>size\<close> is \<open>length\<close>.
\<close>

record metadata_sets =
  fieldsWithData :: "string list"
  divisions :: "string list"
  wards :: "int list"

definition metadata_step :: "metadata_sets \<Rightarrow> ServiceResult \<Rightarrow> metadata_sets" where
  "metadata_step m service =
     (let m1 = (if truthy_str (service_division_owner service)
                then m\<lparr>fieldsWithData := List.insert ''division'' (fieldsWithData m),
                       divisions := List.insert (show_str_opt (service_division_owner service))
                                      (divisions m)\<rparr>
                else m);
          m2 = (if truthy_str (service_result service)
                then m1\<lparr>fieldsWithData := List.insert ''result'' (fieldsWithData m1)\<rparr>
                else m1);
          m3 = (case ward service of
                  Some w \<Rightarrow> m2\<lparr>fieldsWithData := List.insert ''ward'' (fieldsWithData m2),
                                wards := List.insert w (wards m2)\<rparr>
                | None \<Rightarrow> m2);
          m4 = (if estimated_cost service \<noteq> None
                then m3\<lparr>fieldsWithData := List.insert ''cost'' (fieldsWithData m3)\<rparr>
                else m3)
      in if truthy_str (notes_field service)
         then m4\<lparr>fieldsWithData := List.insert ''notes'' (fieldsWithData m4)\<rparr>
         else m4)"

definition duplicate_key :: "ServiceResult \<Rightarrow> string" where
  "duplicate_key service =
     show_date_opt (start_date service) @ ''-'' @ show_date_opt (end_date service) @ ''-'' @
     show_str_opt (service_division_owner service) @ ''-'' @ show_int_opt (ward service)"

definition duplicate_step :: "string list \<times> nat \<Rightarrow> ServiceResult \<Rightarrow> string list \<times> nat" where
  "duplicate_step st service =
     (let key = duplicate_key service in
      if key \<in> set (fst st) then (fst st, snd st + 1) else (key # fst st, snd st))"

definition collect_metadata :: "ServiceResult list \<Rightarrow> metadata_sets" where
  "collect_metadata services =
     foldl metadata_step \<lparr>fieldsWithData = [], divisions = [], wards = []\<rparr> services"

definition fieldDiversityScore :: "ServiceResult list \<Rightarrow> real" where
  "fieldDiversityScore services =
     (real (length (fieldsWithData (collect_metadata services))) / 6) * 100"

definition calculateMetadataQuality :: "ServiceResult list \<Rightarrow> real" where
  "calculateMetadataQuality services =
     (let totalRecords = length services in
      if totalRecords = 0 then 100
      else
        let m = collect_metadata services;
            metadataScore1 = fieldDiversityScore services * 0.25;
            divisionDiversity =
              min 100 ((real (length (divisions m)) / max 1 (real totalRecords * 0.01)) * 100);
            wardDiversity = min 100 ((real (length (wards m)) / 25) * 100);
            metadataScore2 = metadataScore1 + ((divisionDiversity + wardDiversity) / 2) * 0.25;
            recordsWithNotes =
              length (filter (\<lambda>s. truthy_str (notes_field s)
                                   \<and> length (trim (show_str_opt (notes_field s))) > 10) services);
            recordsWithAnyNotes =
              length (filter (\<lambda>s. truthy_str (notes_field s)
                                   \<and> length (trim (show_str_opt (notes_field s))) > 0) services);
            notesScore = ((real recordsWithAnyNotes / real totalRecords) * 30)
                       + ((real recordsWithNotes / real totalRecords) * 70);
            metadataScore3 = metadataScore2 + notesScore * 0.25;
            duplicates = snd (foldl duplicate_step ([], 0) services);
            uniquenessScore =
              (if totalRecords > 0
               then ((real totalRecords - real duplicates) / real totalRecords) * 100 else 100)
        in metadataScore3 + uniquenessScore * 0.25)"

subsection \<open>The five dimensions together\<close>

text \<open>
  \<^verbatim>\<open>DataQualityDimension\<close> and \<^verbatim>\<open>DataQualityMetrics\<close> of \<^verbatim>\<open>src/types/api.ts\<close>. Of a dimension
  the model keeps the score; \<^verbatim>\<open>details\<close>, \<^verbatim>\<open>issues\<close> and \<^verbatim>\<open>recommendations\<close> are display
  text, no score depends on them, and they are left out. The metadata score is returned in
  the field \<^verbatim>\<open>validity\<close>.
\<close>

record DataQualityDimension =
  score :: real

record DataQualityMetrics =
  completeness :: DataQualityDimension
  accuracy :: DataQualityDimension
  timeliness :: DataQualityDimension
  consistency :: DataQualityDimension
  validity :: DataQualityDimension
  overallScore :: real

definition calculateAuditAlignedDataQuality :: "clock \<Rightarrow> ServiceResult list \<Rightarrow> DataQualityMetrics" where
  "calculateAuditAlignedDataQuality clk services =
     (let accuracyScore = calculateAccuracy clk services;
          completenessScore = calculateCompleteness services;
          timelinessScore = calculateTimeliness clk services;
          consistencyScore = calculateConsistency services;
          metadataScore = calculateMetadataQuality services;
          overallScore =
            (accuracyScore + completenessScore + timelinessScore + consistencyScore + metadataScore) / 5
      in \<lparr>completeness = \<lparr>score = completenessScore\<rparr>,
          accuracy = \<lparr>score = accuracyScore\<rparr>,
          timeliness = \<lparr>score = timelinessScore\<rparr>,
          consistency = \<lparr>score = consistencyScore\<rparr>,
          validity = \<lparr>score = metadataScore\<rparr>,
          overallScore = overallScore\<rparr>)"

definition getEmptyDataQuality :: DataQualityMetrics where
  "getEmptyDataQuality =
     (let emptyDimension = \<lparr>score = 0\<rparr> in
      \<lparr>completeness = emptyDimension,
       accuracy = emptyDimension,
       timeliness = emptyDimension,
       consistency = emptyDimension,
       validity = emptyDimension,
       overallScore = 0\<rparr>)"

section \<open>Readiness aggregator (data readiness)\<close>

text \<open>
  \<^verbatim>\<open>ReadinessMetrics\<close>: the four scores and the critical issues. The breakdown repeats the
  dimension scores; the strengths are text built with \<^verbatim>\<open>toFixed\<close>; both are left out, and
  so are the recommendation records.
\<close>

record ReadinessMetrics =
  dataReadinessScore :: real
  operationalReadinessScore :: real
  qualityReadinessScore :: real
  overallReadinessScore :: real
  criticalIssues :: "string list"

definition calculateODRAReadinessMetrics ::
    "ServiceResult list \<Rightarrow> DataQualityMetrics \<Rightarrow> ReadinessMetrics" where
  "calculateODRAReadinessMetrics services dataQuality =
     (let finalAccuracy = score (accuracy dataQuality);
          finalCompleteness = score (completeness dataQuality);
          finalTimeliness = score (timeliness dataQuality);
          finalConsistency = score (consistency dataQuality);
          finalMetadata = score (validity dataQuality);
          overallReadinessScore =
            (finalAccuracy + finalConsistency + finalCompleteness + finalTimeliness + finalMetadata) / 5;
          invalidWard66Count = length (filter (\<lambda>s. ward s = Some 66) services);
          criticalIssues1 =
            (if invalidWard66Count > 0
             then [show_nat invalidWard66Count
                     @ '' records with invalid ward numbers (Ward 66 doesn't exist)'']
             else []);
          criticalIssues2 =
            (if score (timeliness dataQuality) < 10
             then criticalIssues1 @ [''Data staleness: dataset is significantly outdated'']
             else criticalIssues1)
      in \<lparr>dataReadinessScore = overallReadinessScore,
          operationalReadinessScore = finalTimeliness,
          qualityReadinessScore = (finalAccuracy + finalConsistency + finalCompleteness) / 3,
          overallReadinessScore = overallReadinessScore,
          criticalIssues = criticalIssues2\<rparr>)"

definition getEmptyReadinessMetrics :: ReadinessMetrics where
  "getEmptyReadinessMetrics =
     \<lparr>dataReadinessScore = 0,
      operationalReadinessScore = 0,
      qualityReadinessScore = 0,
      overallReadinessScore = 0,
      criticalIssues = [''No data available for analysis'']\<rparr>"

text \<open>
  What the handler of the data readiness endpoint puts into its response: for no services
  the empty structures, otherwise the calculated ones.
\<close>

record readiness_data =
  dataQuality :: DataQualityMetrics
  readinessMetrics :: ReadinessMetrics

definition data_readiness_handler :: "clock \<Rightarrow> ServiceResult list \<Rightarrow> readiness_data" where
  "data_readiness_handler clk services =
     (if length services = 0
      then \<lparr>dataQuality = getEmptyDataQuality, readinessMetrics = getEmptyReadinessMetrics\<rparr>
      else
        let dq = calculateAuditAlignedDataQuality clk services
        in \<lparr>dataQuality = dq, readinessMetrics = calculateODRAReadinessMetrics services dq\<rparr>)"

section \<open>Quality metrics of the dashboard endpoint\<close>

text \<open>
  \<^verbatim>\<open>calculateDataQualityMetrics\<close> of \<^verbatim>\<open>pages/api/toronto-dashboard.ts\<close>. Its completeness
  fractions divide by the number of services without a guard; the handler calls it for a
  non-empty list only, and \<open>dashboard_dataQuality\<close> below is that call with its guard.
\<close>

definition calculateDataQualityMetrics :: "clock \<Rightarrow> ServiceResult list \<Rightarrow> DataQualityMetrics" where
  "calculateDataQualityMetrics clk services =
     (let totalServices = length services;
          completenessMetrics =
            [real (length (filter (\<lambda>s. truthy_date (start_date s)) services)) / real totalServices,
             real (length (filter (\<lambda>s. truthy_date (end_date s)) services)) / real totalServices,
             real (length (filter (\<lambda>s. truthy_str (service_division_owner s)) services))
               / real totalServices,
             real (length (filter (\<lambda>s. truthy_str (service_result s)
                                        \<and> trim (show_str_opt (service_result s)) \<noteq> []) services))
               / real totalServices,
             real (length (filter (\<lambda>s. ward s \<noteq> None) services)) / real totalServices,
             real (length (filter (\<lambda>s. estimated_cost s \<noteq> None) services)) / real totalServices];
          completenessScore =
            (foldl (\<lambda>sum val. sum + val) 0 completenessMetrics / real (length completenessMetrics)) * 100;
          validWards =
            length (filter (\<lambda>s. case ward s of None \<Rightarrow> False
                                 | Some w \<Rightarrow> w \<noteq> 0 \<and> w \<ge> 1 \<and> w \<le> 25) services);
          invalidWard66 = length (filter (\<lambda>s. ward s = Some 66) services);
          accuracyScore =
            (if totalServices > 0
             then (real (validWards + invalidWard66) / real totalServices) * 100 else 100);
          recentServices =
            length (filter (\<lambda>s. case end_date s of None \<Rightarrow> False
                                 | Some d \<Rightarrow> raw d \<noteq> [] \<and>
                                     real_of_int (currentDate clk - getTime d) / (1000 * 3600 * 24) \<le> 90)
                      services);
          timelinessScore =
            (if totalServices > 0 then (real recentServices / real totalServices) * 100 else 0);
          divisionWithResult =
            length (filter (\<lambda>s. truthy_str (service_division_owner s) \<and> truthy_str (service_result s))
                      services);
          consistencyScore =
            (if totalServices > 0 then (real divisionWithResult / real totalServices) * 100 else 100);
          validResults =
            length (filter (\<lambda>s. service_result s = None \<or> service_result s = Some []
                                 \<or> service_result s = Some ''PASS''
                                 \<or> service_result s = Some ''FAIL'') services);
          validCosts =
            length (filter (\<lambda>s. case estimated_cost s of None \<Rightarrow> True
                                 | Some c \<Rightarrow> c \<ge> 0 \<and> c \<le> 10000000) services);
          validityScore =
            (if totalServices > 0
             then (real (validResults + validCosts) / (real totalServices * 2)) * 100 else 100);
          overallScore =
            (completenessScore + accuracyScore + timelinessScore + consistencyScore + validityScore) / 5
      in \<lparr>completeness = \<lparr>score = completenessScore\<rparr>,
          accuracy = \<lparr>score = accuracyScore\<rparr>,
          timeliness = \<lparr>score = timelinessScore\<rparr>,
          consistency = \<lparr>score = consistencyScore\<rparr>,
          validity = \<lparr>score = validityScore\<rparr>,
          overallScore = overallScore\<rparr>)"

definition dashboard_dataQuality :: "clock \<Rightarrow> ServiceResult list \<Rightarrow> DataQualityMetrics" where
  "dashboard_dataQuality clk services =
     (if length services = 0 then getEmptyDataQuality
      else calculateDataQualityMetrics clk services)"

section \<open>Time-series aggregator (dashboard)\<close>

text \<open>
  \<^verbatim>\<open>calculateEnhancedTimeSeriesData\<close>. The month key of a start date is
  \<^verbatim>\<open>formatYearMonth(new Date(start_date))\<close>, which formats with the library date-fns in the
  local time zone; the function from an instant to its key is a parameter. The JavaScript
  \<^verbatim>\<open>Map\<close> is a list of entries in insertion order. The months are sorted by their key with
  \<^verbatim>\<open>localeCompare\<close>, on keys of the form yyyy-MM the lexicographic order.
\<close>

record MonthAcc =
  period :: string
  ma_totalServices :: nat
  ma_totalCost :: real
  ma_passCount :: nat
  ma_failCount :: nat
  ma_unknownCount :: nat

record MomChange =
  mom_services :: real
  mom_cost :: real
  mom_passRate :: real

record TimeSeriesData =
  ts_period :: string
  ts_totalServices :: nat
  ts_totalCost :: real
  ts_avgCost :: real
  ts_passCount :: nat
  ts_failCount :: nat
  ts_unknownCount :: nat
  ts_passRate :: real
  ts_failRate :: real
  ts_unknownRate :: real
  momChange :: MomChange
  ts_costEfficiency :: real

definition month_add :: "ServiceResult \<Rightarrow> MonthAcc \<Rightarrow> MonthAcc" where
  "month_add service month =
     (let m1 = month\<lparr>ma_totalServices := ma_totalServices month + 1,
                     ma_totalCost := ma_totalCost month + cost_or_zero service\<rparr>
      in if service_result service = Some ''PASS'' then m1\<lparr>ma_passCount := ma_passCount m1 + 1\<rparr>
         else if service_result service = Some ''FAIL''
           then m1\<lparr>ma_failCount := ma_failCount m1 + 1\<rparr>
         else m1\<lparr>ma_unknownCount := ma_unknownCount m1 + 1\<rparr>)"

definition monthly_step ::
    "(int \<Rightarrow> string) \<Rightarrow> (string \<times> MonthAcc) list \<Rightarrow> ServiceResult \<Rightarrow> (string \<times> MonthAcc) list" where
  "monthly_step formatYearMonth monthlyData service =
     (case start_date service of
        None \<Rightarrow> monthlyData
      | Some d \<Rightarrow>
          if raw d = [] then monthlyData
          else
            let monthKey = formatYearMonth (getTime d);
                present =
                  (if monthKey \<in> set (map fst monthlyData) then monthlyData
                   else monthlyData @
                     [(monthKey, \<lparr>period = monthKey, ma_totalServices = 0, ma_totalCost = 0,
                                  ma_passCount = 0, ma_failCount = 0, ma_unknownCount = 0\<rparr>)])
            in map (\<lambda>(k, month). if k = monthKey then (k, month_add service month) else (k, month))
                 present)"

definition month_row :: "MonthAcc list \<Rightarrow> nat \<Rightarrow> TimeSeriesData" where
  "month_row sortedData index =
     (let month = sortedData ! index;
          avgCost = (if ma_totalServices month > 0
                     then ma_totalCost month / real (ma_totalServices month) else 0);
          passRate = (if ma_totalServices month > 0
                      then (real (ma_passCount month) / real (ma_totalServices month)) * 100 else 0);
          failRate = (if ma_totalServices month > 0
                      then (real (ma_failCount month) / real (ma_totalServices month)) * 100 else 0);
          unknownRate = (if ma_totalServices month > 0
                         then (real (ma_unknownCount month) / real (ma_totalServices month)) * 100
                         else 0);
          momChange =
            (if index > 0
             then
               let prevMonth = sortedData ! (index - 1) in
               \<lparr>mom_services =
                  (if ma_totalServices prevMonth > 0
                   then ((real (ma_totalServices month) - real (ma_totalServices prevMonth))
                           / real (ma_totalServices prevMonth)) * 100
                   else 0),
                mom_cost =
                  (if ma_totalCost prevMonth > 0
                   then ((ma_totalCost month - ma_totalCost prevMonth) / ma_totalCost prevMonth) * 100
                   else 0),
                mom_passRate =
                  (if ma_passCount prevMonth > 0
                   then passRate
                          - ((real (ma_passCount prevMonth) / real (ma_totalServices prevMonth)) * 100)
                   else 0)\<rparr>
             else \<lparr>mom_services = 0, mom_cost = 0, mom_passRate = 0\<rparr>);
          costEfficiency = (if avgCost > 0 then passRate / (avgCost / 1000) else 0)
      in \<lparr>ts_period = period month,
          ts_totalServices = ma_totalServices month,
          ts_totalCost = ma_totalCost month,
          ts_avgCost = avgCost,
          ts_passCount = ma_passCount month,
          ts_failCount = ma_failCount month,
          ts_unknownCount = ma_unknownCount month,
          ts_passRate = passRate,
          ts_failRate = failRate,
          ts_unknownRate = unknownRate,
          momChange = momChange,
          ts_costEfficiency = costEfficiency\<rparr>)"

definition calculateEnhancedTimeSeriesData ::
    "(int \<Rightarrow> string) \<Rightarrow> ServiceResult list \<Rightarrow> TimeSeriesData list" where
  "calculateEnhancedTimeSeriesData formatYearMonth services =
     (let monthlyData = foldl (monthly_step formatYearMonth) [] services;
          sortedData = sort_key period (map snd monthlyData)
      in map (month_row sortedData) [0..<length sortedData])"

section \<open>Cost distribution binner (dashboard)\<close>

text \<open>
  \<^verbatim>\<open>calculateCostDistribution\<close>. A bin keeps its bounds, its count and its percentage;
  the label, text built with \<^verbatim>\<open>toFixed\<close>, is left out. The constants
  \<^verbatim>\<open>minItemsPerBin\<close> and \<^verbatim>\<open>lowCostData\<close> are computed by the source and never read. Each
  loop pushes one bin per index whose count is positive. The logarithm and the power of the
  upper bins are exact here, so the last upper bound is the maximum itself; on doubles
  \<^verbatim>\<open>Math.pow(10, Math.log10(max))\<close> can fall below the maximum.
\<close>

record CostDistributionBin =
  bin_min :: real
  bin_max :: real
  bin_count :: nat
  percentage :: real

definition push_bin :: "real list \<Rightarrow> real \<Rightarrow> real \<Rightarrow> nat \<Rightarrow> CostDistributionBin list" where
  "push_bin costs binMin binMax count =
     (if count > 0
      then [\<lparr>bin_min = binMin, bin_max = binMax, bin_count = count,
              percentage = (real count / real (length costs)) * 100\<rparr>]
      else [])"

definition closed_bins ::
    "real list \<Rightarrow> real \<Rightarrow> real \<Rightarrow> real \<Rightarrow> nat \<Rightarrow> CostDistributionBin list" where
  "closed_bins costs lo hi binSize n =
     concat (map (\<lambda>i.
        let binMin = lo + (real i * binSize);
            binMax = (if i = n - 1 then hi else lo + ((real i + 1) * binSize));
            count = length (filter (\<lambda>cost. cost \<ge> binMin \<and> cost \<le> binMax) costs)
        in push_bin costs binMin binMax count) [0..<n])"

definition log_bins ::
    "real list \<Rightarrow> real \<Rightarrow> real \<Rightarrow> nat \<Rightarrow> CostDistributionBin list" where
  "log_bins costs q75Cost mx highBinCount =
     (let logMin = log 10 q75Cost;
          logMax = log 10 mx;
          logBinSize = (logMax - logMin) / real highBinCount
      in concat (map (\<lambda>i.
           let logBinMin = logMin + (real i * logBinSize);
               logBinMax = (if i = highBinCount - 1 then logMax
                            else logMin + ((real i + 1) * logBinSize));
               binMin = (if i = 0 then q75Cost else 10 powr logBinMin);
               binMax = 10 powr logBinMax;
               count = length (filter (\<lambda>cost. cost > binMin \<and> cost \<le> binMax) costs)
           in push_bin costs binMin binMax count) [0..<highBinCount]))"

definition positive_costs :: "ServiceResult list \<Rightarrow> real list" where
  "positive_costs services = sort (filter (\<lambda>cost. cost > 0) (map cost_or_zero services))"

definition calculateCostDistribution :: "ServiceResult list \<Rightarrow> CostDistributionBin list" where
  "calculateCostDistribution services =
     (let costs = positive_costs services in
      if length costs = 0 then []
      else
        let mn = costs ! 0;
            mx = costs ! (length costs - 1);
            binCount = nat (min 12 (max 6 (\<lceil>sqrt (real (length costs)) * 0.8\<rceil>)));
            range = mx - mn;
            medianCost = costs ! (length costs div 2);
            q75Cost = costs ! nat \<lfloor>real (length costs) * 0.75\<rfloor>
        in if range > medianCost * 100
           then
             let lowBinCount = nat \<lceil>real binCount * 0.7\<rceil>;
                 lowBinSize = (q75Cost - mn) / real lowBinCount;
                 bins = closed_bins costs mn q75Cost lowBinSize lowBinCount;
                 highCostData = filter (\<lambda>c. c > q75Cost) costs
             in if length highCostData > 0
                then bins @ log_bins costs q75Cost mx (binCount - length bins)
                else bins
           else
             let binSize = range / real binCount
             in closed_bins costs mn mx binSize binCount)"

section \<open>Ward aggregator (dashboard)\<close>

text \<open>
  \<^verbatim>\<open>calculateWardAnalysis\<close>. Its second parameter \<^verbatim>\<open>wardDataArray\<close> is never read and is
  left out. \<^verbatim>\<open>reduce\<close> is \<open>foldl\<close>. The cost per passing service of a ward without a
  passing service is \<^verbatim>\<open>Infinity\<close>, here \<open>None\<close>. The nested impact analysis of the ward 66
  block is flattened into the block. The ranking is sorted with \<^verbatim>\<open>Array.prototype.sort\<close>
  and the comparator \<^verbatim>\<open>b.efficiencyScore - a.efficiencyScore\<close>: a stable sort into
  descending score, which is \<open>sort_key\<close> on the negated score.
\<close>

record WardMetrics =
  wm_ward :: int
  wm_totalServices :: nat
  wm_totalCost :: real
  wm_avgCost :: real
  wm_passRate :: real
  wm_failRate :: real
  wm_unknownRate :: real
  wm_costEfficiency :: real

record Ward66Analysis =
  w66_count :: nat
  w66_totalCost :: real
  w66_avgCost :: real
  w66_passRate :: real
  percentageOfTotalServices :: real
  percentageOfTotalCost :: real
  avgCostDifference :: real
  passRateDifference :: real
  recommendations :: "string list"

record WardEfficiencyItem =
  ei_ward :: int
  efficiencyScore :: real
  ei_totalServices :: nat
  ei_totalCost :: real
  ei_passRate :: real
  costPerPassingService :: "real option"
  rank :: nat

record WardAnalysisData =
  validWards :: "WardMetrics list"
  invalidWard66 :: Ward66Analysis
  wardEfficiencyRanking :: "WardEfficiencyItem list"
  totalWardsCovered :: nat
  wardCoveragePercentage :: real

definition sum_cost :: "ServiceResult list \<Rightarrow> real" where
  "sum_cost xs = foldl (\<lambda>sum s. sum + cost_or_zero s) 0 xs"

definition ward_metrics :: "ServiceResult list \<Rightarrow> int \<Rightarrow> WardMetrics" where
  "ward_metrics services wardNum =
     (let wardServices = filter (\<lambda>s. ward s = Some wardNum) services;
          totalServices = length wardServices;
          totalCost = sum_cost wardServices;
          passCount = length (filter (\<lambda>s. service_result s = Some ''PASS'') wardServices);
          failCount = length (filter (\<lambda>s. service_result s = Some ''FAIL'') wardServices);
          unknownCount =
            length (filter (\<lambda>s. service_result s = None \<or> service_result s = Some []) wardServices)
      in \<lparr>wm_ward = wardNum,
          wm_totalServices = totalServices,
          wm_totalCost = totalCost,
          wm_avgCost = (if totalServices > 0 then totalCost / real totalServices else 0),
          wm_passRate =
            (if totalServices > 0 then (real passCount / real totalServices) * 100 else 0),
          wm_failRate =
            (if totalServices > 0 then (real failCount / real totalServices) * 100 else 0),
          wm_unknownRate =
            (if totalServices > 0 then (real unknownCount / real totalServices) * 100 else 0),
          wm_costEfficiency =
            (if totalServices > 0 \<and> totalCost > 0
             then (real passCount / real totalServices) / (totalCost / real totalServices / 1000)
             else 0)\<rparr>)"

definition efficiency_item :: "WardMetrics \<Rightarrow> WardEfficiencyItem" where
  "efficiency_item w =
     (let costPerPassingService =
            (if wm_passRate w > 0
             then Some (wm_totalCost w / (real (wm_totalServices w) * (wm_passRate w / 100)))
             else None);
          efficiencyScore =
            (if wm_passRate w > 0 \<and> wm_avgCost w > 0
             then (wm_passRate w / 100) / (wm_avgCost w / 1000) * 100 else 0)
      in \<lparr>ei_ward = wm_ward w,
          efficiencyScore = efficiencyScore,
          ei_totalServices = wm_totalServices w,
          ei_totalCost = wm_totalCost w,
          ei_passRate = wm_passRate w,
          costPerPassingService = costPerPassingService,
          rank = 0\<rparr>)"

definition calculateWardAnalysis :: "ServiceResult list \<Rightarrow> WardAnalysisData" where
  "calculateWardAnalysis services =
     (let validWardNumbers = [1..25];
          ward66Services = filter (\<lambda>s. ward s = Some 66) services;
          validWards =
            filter (\<lambda>w. wm_totalServices w > 0) (map (ward_metrics services) validWardNumbers);
          ward66TotalCost = sum_cost ward66Services;
          ward66PassCount =
            length (filter (\<lambda>s. service_result s = Some ''PASS'') ward66Services);
          ward66PassRate =
            (if length ward66Services > 0
             then (real ward66PassCount / real (length ward66Services)) * 100 else 0);
          ward66AvgCost =
            (if length ward66Services > 0
             then ward66TotalCost / real (length ward66Services) else 0);
          validWardsAvgCost =
            (if length validWards > 0
             then foldl (\<lambda>sum w. sum + wm_avgCost w) 0 validWards / real (length validWards)
             else 0);
          validWardsAvgPassRate =
            (if length validWards > 0
             then foldl (\<lambda>sum w. sum + wm_passRate w) 0 validWards / real (length validWards)
             else 0);
          invalidWard66 =
            \<lparr>w66_count = length ward66Services,
             w66_totalCost = ward66TotalCost,
             w66_avgCost = ward66AvgCost,
             w66_passRate = ward66PassRate,
             percentageOfTotalServices =
               (if length services > 0
                then (real (length ward66Services) / real (length services)) * 100 else 0),
             percentageOfTotalCost =
               (if sum_cost services > 0 then (ward66TotalCost / sum_cost services) * 100 else 0),
             avgCostDifference = ward66AvgCost - validWardsAvgCost,
             passRateDifference = ward66PassRate - validWardsAvgPassRate,
             recommendations =
               [''Investigate data entry process for Ward 66 assignments'',
                ''Implement ward validation rules to prevent invalid assignments'',
                ''Review and correct historical Ward 66 records'',
                ''Create mapping table for proper ward assignment'']\<rparr>;
          wardEfficiencyRanking =
            map (\<lambda>(index, item). item\<lparr>rank := index + 1\<rparr>)
              (enumerate 0 (sort_key (\<lambda>item. - efficiencyScore item)
                              (map efficiency_item validWards)))
      in \<lparr>validWards = validWards,
          invalidWard66 = invalidWard66,
          wardEfficiencyRanking = wardEfficiencyRanking,
          totalWardsCovered = length validWards,
          wardCoveragePercentage = (real (length validWards) / 25) * 100\<rparr>)"

section \<open>Double precision\<close>

text \<open>
  JavaScript numbers are IEEE 754 doubles: the result of each arithmetic operation is the
  exact result rounded to the nearest number with a significand of 53 bits, a tie going to
  the even significand. \<open>binary64\<close> is this rounding for results in the normal range
  (overflow and subnormal numbers are not modelled). The definitions of the other sections
  compute with exact reals; the ranking of the wards is modelled with the rounding as well,
  because its order depends on it.
\<close>

definition round_half_even :: "real \<Rightarrow> int" where
  "round_half_even y =
     (let f = \<lfloor>y\<rfloor> in
      if y - of_int f < 1 / 2 then f
      else if y - of_int f > 1 / 2 then f + 1
      else if even f then f else f + 1)"

definition binary64 :: "real \<Rightarrow> real" where
  "binary64 x =
     (if x = 0 then 0
      else
        let e = \<lfloor>log 2 \<bar>x\<bar>\<rfloor>;
            ulp = 2 powr of_int (e - 52)
        in of_int (round_half_even (x / ulp)) * ulp)"

section \<open>Ward aggregator with rounded arithmetic\<close>

text \<open>
  \<^verbatim>\<open>calculateWardAnalysis\<close> once more, with a rounding function \<open>fl\<close> applied to the result of
  every arithmetic operation, in the order in which the source evaluates its expressions.
  With the identity for \<open>fl\<close> these are the functions of the previous section; with
  \<open>binary64\<close> they compute what the code computes on doubles. The costs of the records are
  taken as they are. The difference that the comparator of the ranking returns is not
  rounded: the rounded difference of two doubles has the sign of the exact difference.
\<close>

definition rounded_sum_cost :: "(real \<Rightarrow> real) \<Rightarrow> ServiceResult list \<Rightarrow> real" where
  "rounded_sum_cost fl xs = foldl (\<lambda>sum s. fl (sum + cost_or_zero s)) 0 xs"

definition rounded_ward_metrics ::
    "(real \<Rightarrow> real) \<Rightarrow> ServiceResult list \<Rightarrow> int \<Rightarrow> WardMetrics" where
  "rounded_ward_metrics fl services wardNum =
     (let wardServices = filter (\<lambda>s. ward s = Some wardNum) services;
          totalServices = length wardServices;
          totalCost = rounded_sum_cost fl wardServices;
          passCount = length (filter (\<lambda>s. service_result s = Some ''PASS'') wardServices);
          failCount = length (filter (\<lambda>s. service_result s = Some ''FAIL'') wardServices);
          unknownCount =
            length (filter (\<lambda>s. service_result s = None \<or> service_result s = Some []) wardServices)
      in \<lparr>wm_ward = wardNum,
          wm_totalServices = totalServices,
          wm_totalCost = totalCost,
          wm_avgCost = (if totalServices > 0 then fl (totalCost / real totalServices) else 0),
          wm_passRate =
            (if totalServices > 0 then fl (fl (real passCount / real totalServices) * 100) else 0),
          wm_failRate =
            (if totalServices > 0 then fl (fl (real failCount / real totalServices) * 100) else 0),
          wm_unknownRate =
            (if totalServices > 0 then fl (fl (real unknownCount / real totalServices) * 100)
             else 0),
          wm_costEfficiency =
            (if totalServices > 0 \<and> totalCost > 0
             then fl (fl (real passCount / real totalServices)
                        / fl (fl (totalCost / real totalServices) / 1000))
             else 0)\<rparr>)"

definition rounded_efficiency_item :: "(real \<Rightarrow> real) \<Rightarrow> WardMetrics \<Rightarrow> WardEfficiencyItem" where
  "rounded_efficiency_item fl w =
     (let costPerPassingService =
            (if wm_passRate w > 0
             then Some (fl (wm_totalCost w
                              / fl (real (wm_totalServices w) * fl (wm_passRate w / 100))))
             else None);
          efficiencyScore =
            (if wm_passRate w > 0 \<and> wm_avgCost w > 0
             then fl (fl (fl (wm_passRate w / 100) / fl (wm_avgCost w / 1000)) * 100) else 0)
      in \<lparr>ei_ward = wm_ward w,
          efficiencyScore = efficiencyScore,
          ei_totalServices = wm_totalServices w,
          ei_totalCost = wm_totalCost w,
          ei_passRate = wm_passRate w,
          costPerPassingService = costPerPassingService,
          rank = 0\<rparr>)"

definition calculateWardAnalysis_rounded ::
    "(real \<Rightarrow> real) \<Rightarrow> ServiceResult list \<Rightarrow> WardAnalysisData" where
  "calculateWardAnalysis_rounded fl services =
     (let validWardNumbers = [1..25];
          ward66Services = filter (\<lambda>s. ward s = Some 66) services;
          validWards =
            filter (\<lambda>w. wm_totalServices w > 0)
              (map (rounded_ward_metrics fl services) validWardNumbers);
          ward66TotalCost = rounded_sum_cost fl ward66Services;
          ward66PassCount =
            length (filter (\<lambda>s. service_result s = Some ''PASS'') ward66Services);
          ward66PassRate =
            (if length ward66Services > 0
             then fl (fl (real ward66PassCount / real (length ward66Services)) * 100) else 0);
          ward66AvgCost =
            (if length ward66Services > 0
             then fl (ward66TotalCost / real (length ward66Services)) else 0);
          validWardsAvgCost =
            (if length validWards > 0
             then fl (foldl (\<lambda>sum w. fl (sum + wm_avgCost w)) 0 validWards
                        / real (length validWards))
             else 0);
          validWardsAvgPassRate =
            (if length validWards > 0
             then fl (foldl (\<lambda>sum w. fl (sum + wm_passRate w)) 0 validWards
                        / real (length validWards))
             else 0);
          invalidWard66 =
            \<lparr>w66_count = length ward66Services,
             w66_totalCost = ward66TotalCost,
             w66_avgCost = ward66AvgCost,
             w66_passRate = ward66PassRate,
             percentageOfTotalServices =
               (if length services > 0
                then fl (fl (real (length ward66Services) / real (length services)) * 100) else 0),
             percentageOfTotalCost =
               (if rounded_sum_cost fl services > 0
                then fl (fl (ward66TotalCost / rounded_sum_cost fl services) * 100) else 0),
             avgCostDifference = fl (ward66AvgCost - validWardsAvgCost),
             passRateDifference = fl (ward66PassRate - validWardsAvgPassRate),
             recommendations =
               [''Investigate data entry process for Ward 66 assignments'',
                ''Implement ward validation rules to prevent invalid assignments'',
                ''Review and correct historical Ward 66 records'',
                ''Create mapping table for proper ward assignment'']\<rparr>;
          wardEfficiencyRanking =
            map (\<lambda>(index, item). item\<lparr>rank := index + 1\<rparr>)
              (enumerate 0 (sort_key (\<lambda>item. - efficiencyScore item)
                              (map (rounded_efficiency_item fl) validWards)))
      in \<lparr>validWards = validWards,
          invalidWard66 = invalidWard66,
          wardEfficiencyRanking = wardEfficiencyRanking,
          totalWardsCovered = length validWards,
          wardCoveragePercentage = fl (fl (real (length validWards) / 25) * 100)\<rparr>)"

section \<open>Reference notions and example inputs\<close>

text \<open>The arithmetic mean, and the five dimension scores of a quality result.\<close>

definition arithmetic_mean :: "real list \<Rightarrow> real" where
  "arithmetic_mean xs = sum_list xs / real (length xs)"

definition dimension_scores :: "DataQualityMetrics \<Rightarrow> real list" where
  "dimension_scores q =
     [score (completeness q), score (accuracy q), score (consistency q),
      score (timeliness q), score (validity q)]"

text \<open>
  A clock reading (14 November 2023, 22:13:20 UTC) and a complete record of October 2023,
  used to run the calculators on concrete input.
\<close>

definition example_clock :: clock where
  "example_clock =
     \<lparr>currentDate = 1700000000000, oneYearFuture = 1731622400000,
      fiftyYearsPast = 122163200000\<rparr>"

definition example_service :: ServiceResult where
  "example_service =
     \<lparr>service_id = 1,
      start_date = Some (DateString ''2023-10-01'' 1696118400000),
      end_date = Some (DateString ''2023-10-31'' 1698710400000),
      service_division_owner = Some ''Parks'',
      service_result = Some ''PASS'',
      ward = Some 5,
      estimated_cost = Some 1000,
      notes_field = Some ''Tree pruning''\<rparr>"

text \<open>The five field names the metadata calculator can record as populated.\<close>

definition field_names :: "string set" where
  "field_names = {''division'', ''result'', ''ward'', ''cost'', ''notes''}"

text \<open>The example record without an end date.\<close>

definition example_undated :: ServiceResult where
  "example_undated = example_service\<lparr>end_date := None\<rparr>"

text \<open>
  The accuracy score as the specification words it: a record's violations add up. A result
  is in the category UNKNOWN when it is absent, empty or the text \<^verbatim>\<open>UNKNOWN\<close>.
\<close>

definition date_violation :: "clock \<Rightarrow> ServiceResult \<Rightarrow> bool" where
  "date_violation clk s =
     (start_out_of_window clk s \<or> end_out_of_window clk s \<or> end_before_start s)"

definition result_is_unknown :: "ServiceResult \<Rightarrow> bool" where
  "result_is_unknown s =
     (service_result s = None \<or> service_result s = Some [] \<or> service_result s = Some ''UNKNOWN'')"

definition spec_violations :: "clock \<Rightarrow> ServiceResult \<Rightarrow> real" where
  "spec_violations clk s =
     (if invalid_ward s then 1 else 0) + (if date_violation clk s then 1 else 0)
     + (if negative_cost s then 1 else 0) + (if unrecognized_result s then 1 else 0)
     + (if result_is_unknown s then 0.5 else 0)"

definition spec_accuracy :: "clock \<Rightarrow> ServiceResult list \<Rightarrow> real" where
  "spec_accuracy clk services =
     max 0 (100 * (real (length services) - sum_list (map (spec_violations clk) services))
              / real (length services))"

text \<open>
  The accuracy score with one penalty per record: a record with a violation of ward, date,
  cost or result value counts 1, any other record counts 0.5 when its result is UNKNOWN.
\<close>

definition first_violation :: "clock \<Rightarrow> ServiceResult \<Rightarrow> real" where
  "first_violation clk s =
     (if invalid_ward s \<or> date_violation clk s \<or> negative_cost s \<or> unrecognized_result s then 1
      else if result_is_unknown s then 0.5
      else 0)"

definition amended_accuracy :: "clock \<Rightarrow> ServiceResult list \<Rightarrow> real" where
  "amended_accuracy clk services =
     (if services = [] then 100
      else max 0 (100 * (real (length services) - sum_list (map (first_violation clk) services))
                    / real (length services)))"

text \<open>
  Variants of the example record: ward 66 together with a negative cost; the result
  \<^verbatim>\<open>null\<close>; the result empty; the result the text \<^verbatim>\<open>UNKNOWN\<close>.
\<close>

definition example_two_violations :: ServiceResult where
  "example_two_violations = example_service\<lparr>ward := Some 66, estimated_cost := Some (- 5)\<rparr>"

definition example_no_result :: ServiceResult where
  "example_no_result = example_service\<lparr>service_result := None\<rparr>"

definition example_empty_result :: ServiceResult where
  "example_empty_result = example_service\<lparr>service_result := Some []\<rparr>"

definition example_literal_unknown :: ServiceResult where
  "example_literal_unknown = example_service\<lparr>service_result := Some ''UNKNOWN''\<rparr>"

text \<open>
  The group efficiency formula of the specification: pass rate over 100, divided by the
  average cost over 1000, when the average cost is positive, and 0 otherwise.
\<close>

definition group_efficiency :: "real \<Rightarrow> real \<Rightarrow> real" where
  "group_efficiency passRate avgCost =
     (if avgCost > 0 then (passRate / 100) / (avgCost / 1000) else 0)"

text \<open>
  Example inputs for the dashboard aggregators: a record of ward 30; a valid record with a
  record of ward 66 and one of ward 30; four costs at equal distance; a formatter of month
  keys for the autumn of 2023 (UTC) with a record set of October and November.
\<close>

definition ward_service :: "int \<Rightarrow> real \<Rightarrow> string \<Rightarrow> ServiceResult" where
  "ward_service w c r =
     example_service\<lparr>ward := Some w, estimated_cost := Some c, service_result := Some r\<rparr>"

definition example_ward30 :: ServiceResult where
  "example_ward30 = example_service\<lparr>ward := Some 30\<rparr>"

definition example_anomalies :: "ServiceResult list" where
  "example_anomalies = [example_service, example_service\<lparr>ward := Some 66\<rparr>, example_ward30]"

definition example_costs :: "ServiceResult list" where
  "example_costs =
     [example_service\<lparr>estimated_cost := Some 10\<rparr>, example_service\<lparr>estimated_cost := Some 20\<rparr>,
      example_service\<lparr>estimated_cost := Some 30\<rparr>, example_service\<lparr>estimated_cost := Some 40\<rparr>]"

definition example_formatYearMonth :: "int \<Rightarrow> string" where
  "example_formatYearMonth t = (if t < 1698796800000 then ''2023-10'' else ''2023-11'')"

definition example_november :: "string \<Rightarrow> ServiceResult" where
  "example_november r =
     example_service\<lparr>start_date := Some (DateString ''2023-11-02'' 1698883200000),
                     end_date := Some (DateString ''2023-11-03'' 1698969600000),
                     estimated_cost := Some 2000, service_result := Some r\<rparr>"

definition example_months :: "ServiceResult list" where
  "example_months = [example_november ''FAIL'', example_service, example_november ''PASS'']"

text \<open>
  Record sets for the ward ranking. In the first, ward 3 has three records of cost 300, one
  of them passing, and ward 5 one passing record of cost 900. In the second, ward 3 has five
  records of cost 3000, three of them passing, and ward 5 five records of cost 1000, one of
  them passing. In the third, listed out of ward order, wards 3 and 7 have one passing record
  of cost 1000 each, ward 5 one passing record of cost 500 and ward 9 one failing record.
\<close>

definition example_rounding_tie :: "ServiceResult list" where
  "example_rounding_tie =
     [ward_service 3 300 ''PASS'', ward_service 3 300 ''FAIL'', ward_service 3 300 ''FAIL'',
      ward_service 5 900 ''PASS'']"

definition example_rounding_order :: "ServiceResult list" where
  "example_rounding_order =
     [ward_service 3 3000 ''PASS'', ward_service 3 3000 ''PASS'', ward_service 3 3000 ''PASS'',
      ward_service 3 3000 ''FAIL'', ward_service 3 3000 ''FAIL'',
      ward_service 5 1000 ''PASS'', ward_service 5 1000 ''FAIL'', ward_service 5 1000 ''FAIL'',
      ward_service 5 1000 ''FAIL'', ward_service 5 1000 ''FAIL'']"

definition example_ranking :: "ServiceResult list" where
  "example_ranking =
     [ward_service 7 1000 ''PASS'', ward_service 9 1000 ''FAIL'', ward_service 3 1000 ''PASS'',
      ward_service 5 500 ''PASS'']"

section \<open>Verification\<close>

subsection \<open>Running the calculators on the example record\<close>

lemmas accuracy_check_defs =
  invalid_ward_def start_out_of_window_def end_out_of_window_def end_before_start_def
  negative_cost_def unrecognized_result_def out_of_window_def

lemmas truthy_defs = truthy_str_def truthy_date_def truthy_cost_def

lemma example_accuracy: "calculateAccuracy example_clock [example_service] = 100"
  by (simp add: calculateAccuracy_def accuracy_step_def example_service_def example_clock_def
      accuracy_check_defs)

lemma example_completeness: "calculateCompleteness [example_service] = 100"
  by (simp add: calculateCompleteness_def completeness_step_def hasAllRequiredFields_def
      example_service_def truthy_defs)

lemma example_consistency: "calculateConsistency [example_service] = 100"
  by (simp add: calculateConsistency_def consistency_step_def example_service_def truthy_defs
      cost_or_zero_def show_str_opt_def toUpperCase_def toLowerCase_def upper_char_def
      lower_char_def)

lemma example_timeliness: "calculateTimeliness example_clock [example_service] = 5672 / 73"
  by (simp add: calculateTimeliness_def example_service_def example_clock_def truthy_defs
      msPerDay_def)

lemma example_metadata: "calculateMetadataQuality [example_service] = 503 / 6"
  by (simp add: calculateMetadataQuality_def fieldDiversityScore_def collect_metadata_def
      example_service_def truthy_defs metadata_step_def duplicate_step_def duplicate_key_def
      trim_def is_space_def show_str_opt_def)

subsection \<open>The overall score\<close>

text \<open>
  Claim C1. For every record set the overall score of the quality calculator is the
  arithmetic mean of the five dimension scores it returns (completeness, accuracy,
  consistency, timeliness, and metadata in the field validity). This holds for the
  calculator of the data readiness endpoint, for what its handler returns (the empty
  structure included), for its readiness score, and for the quality metrics of the
  dashboard endpoint. Numbers are exact reals, so the equality is exact.
\<close>

theorem overallScore_is_mean:
  "overallScore (calculateAuditAlignedDataQuality clk services)
     = arithmetic_mean (dimension_scores (calculateAuditAlignedDataQuality clk services))
   \<and> overallScore (dataQuality (data_readiness_handler clk services))
     = arithmetic_mean (dimension_scores (dataQuality (data_readiness_handler clk services)))
   \<and> overallReadinessScore (readinessMetrics (data_readiness_handler clk services))
     = arithmetic_mean (dimension_scores (dataQuality (data_readiness_handler clk services)))
   \<and> overallScore (dashboard_dataQuality clk services)
     = arithmetic_mean (dimension_scores (dashboard_dataQuality clk services))"
proof -
  have audit: "overallScore (calculateAuditAlignedDataQuality c xs)
     = arithmetic_mean (dimension_scores (calculateAuditAlignedDataQuality c xs))" for c xs
    by (simp add: calculateAuditAlignedDataQuality_def arithmetic_mean_def dimension_scores_def
        Let_def)
  have empty: "overallScore getEmptyDataQuality
     = arithmetic_mean (dimension_scores getEmptyDataQuality)"
    by (simp add: getEmptyDataQuality_def arithmetic_mean_def dimension_scores_def Let_def)
  have dash: "overallScore (calculateDataQualityMetrics c xs)
     = arithmetic_mean (dimension_scores (calculateDataQualityMetrics c xs))" for c xs
    by (simp add: calculateDataQualityMetrics_def arithmetic_mean_def dimension_scores_def
        Let_def)
  have odra: "overallReadinessScore (calculateODRAReadinessMetrics xs q)
     = arithmetic_mean (dimension_scores q)" for xs q
    by (simp add: calculateODRAReadinessMetrics_def arithmetic_mean_def dimension_scores_def
        Let_def)
  have handler_q: "overallScore (dataQuality (data_readiness_handler clk services))
     = arithmetic_mean (dimension_scores (dataQuality (data_readiness_handler clk services)))"
    using audit empty by (simp add: data_readiness_handler_def Let_def)
  have handler_r: "overallReadinessScore (readinessMetrics (data_readiness_handler clk services))
     = arithmetic_mean (dimension_scores (dataQuality (data_readiness_handler clk services)))"
    using odra
    by (simp add: data_readiness_handler_def Let_def getEmptyReadinessMetrics_def
        getEmptyDataQuality_def arithmetic_mean_def dimension_scores_def)
  have dashboard: "overallScore (dashboard_dataQuality clk services)
     = arithmetic_mean (dimension_scores (dashboard_dataQuality clk services))"
    using dash empty by (simp add: dashboard_dataQuality_def)
  from audit handler_q handler_r dashboard show ?thesis by blast
qed

theorem overallScore_is_mean_witness:
  "overallScore (calculateAuditAlignedDataQuality example_clock [example_service])
     = arithmetic_mean [100, 100, 100, 5672 / 73, 503 / 6]
   \<and> overallScore (calculateAuditAlignedDataQuality example_clock [example_service])
     = 202151 / 2190"
proof -
  have scores: "dimension_scores (calculateAuditAlignedDataQuality example_clock [example_service])
     = [100, 100, 100, 5672 / 73, 503 / 6]"
    by (simp add: dimension_scores_def calculateAuditAlignedDataQuality_def Let_def
        example_accuracy example_completeness example_consistency example_timeliness
        example_metadata)
  have "overallScore (calculateAuditAlignedDataQuality example_clock [example_service])
     = arithmetic_mean [100, 100, 100, 5672 / 73, 503 / 6]"
    using overallScore_is_mean [of example_clock "[example_service]"] scores by simp
  then show ?thesis by (simp add: arithmetic_mean_def)
qed

subsection \<open>Every dimension score lies between 0 and 100\<close>

lemma percent_bounds:
  fixes k :: real
  assumes "0 \<le> k" "k \<le> n" "0 < n"
  shows "0 \<le> (k / n) * 100 \<and> (k / n) * 100 \<le> 100"
  using assms by (simp add: divide_le_eq)

lemma completeness_foldl_le: "foldl completeness_step n xs \<le> n + length xs"
proof (induction xs arbitrary: n)
  case Nil
  then show ?case by simp
next
  case (Cons x xs)
  have step: "completeness_step n x \<le> n + 1"
    by (simp add: completeness_step_def)
  have "foldl completeness_step (completeness_step n x) xs \<le> completeness_step n x + length xs"
    by (rule Cons.IH)
  with step show ?case by simp
qed

lemma consistency_foldl_le: "foldl consistency_step n xs \<le> n + length xs"
proof (induction xs arbitrary: n)
  case Nil
  then show ?case by simp
next
  case (Cons x xs)
  have step: "consistency_step n x \<le> n + 1"
    by (simp add: consistency_step_def)
  have "foldl consistency_step (consistency_step n x) xs \<le> consistency_step n x + length xs"
    by (rule Cons.IH)
  with step show ?case by simp
qed

lemma accuracy_step_bounds: "a \<le> accuracy_step clk a x \<and> accuracy_step clk a x \<le> a + 1"
  by (simp add: accuracy_step_def)

lemma accuracy_foldl_bounds:
  "a \<le> foldl (accuracy_step clk) a xs
   \<and> foldl (accuracy_step clk) a xs \<le> a + real (length xs)"
proof (induction xs arbitrary: a)
  case Nil
  then show ?case by simp
next
  case (Cons x xs)
  have s: "a \<le> accuracy_step clk a x \<and> accuracy_step clk a x \<le> a + 1"
    by (rule accuracy_step_bounds)
  have ih: "accuracy_step clk a x \<le> foldl (accuracy_step clk) (accuracy_step clk a x) xs
     \<and> foldl (accuracy_step clk) (accuracy_step clk a x) xs
         \<le> accuracy_step clk a x + real (length xs)"
    by (rule Cons.IH)
  from s ih show ?case by simp
qed

lemma calculateCompleteness_bounds:
  "0 \<le> calculateCompleteness xs \<and> calculateCompleteness xs \<le> 100"
proof (cases "xs = []")
  case True
  then show ?thesis by (simp add: calculateCompleteness_def)
next
  case False
  have "foldl completeness_step 0 xs \<le> length xs"
    using completeness_foldl_le [of 0 xs] by simp
  then have "real (foldl completeness_step 0 xs) \<le> real (length xs)" by simp
  with False percent_bounds [of "real (foldl completeness_step 0 xs)" "real (length xs)"]
  show ?thesis by (simp add: calculateCompleteness_def Let_def)
qed

lemma calculateConsistency_bounds:
  "0 \<le> calculateConsistency xs \<and> calculateConsistency xs \<le> 100"
proof (cases "xs = []")
  case True
  then show ?thesis by (simp add: calculateConsistency_def)
next
  case False
  have "foldl consistency_step 0 xs \<le> length xs"
    using consistency_foldl_le [of 0 xs] by simp
  then have le: "real (foldl consistency_step 0 xs) \<le> real (length xs)" by simp
  with False
    percent_bounds [of "real (length xs) - real (foldl consistency_step 0 xs)" "real (length xs)"]
  show ?thesis by (simp add: calculateConsistency_def Let_def)
qed

lemma calculateAccuracy_bounds:
  "0 \<le> calculateAccuracy clk xs \<and> calculateAccuracy clk xs \<le> 100"
proof (cases "xs = []")
  case True
  then show ?thesis by (simp add: calculateAccuracy_def)
next
  case False
  have "0 \<le> foldl (accuracy_step clk) 0 xs
      \<and> foldl (accuracy_step clk) 0 xs \<le> real (length xs)"
    using accuracy_foldl_bounds [of 0 clk xs] by simp
  with False
    percent_bounds [of "real (length xs) - foldl (accuracy_step clk) 0 xs" "real (length xs)"]
  show ?thesis by (simp add: calculateAccuracy_def Let_def)
qed

lemma gap_loop_ge: "a \<le> gap_loop a rs"
proof (induction a rs rule: gap_loop.induct)
  case (1 totalGapDays prev cur rest)
  let ?gap = "fst cur - snd prev"
  let ?a' = "if ?gap > 0 then totalGapDays + ?gap div msPerDay else totalGapDays"
  have "totalGapDays \<le> ?a'"
    by (simp add: msPerDay_def pos_imp_zdiv_nonneg_iff)
  moreover have "?a' \<le> gap_loop ?a' (cur # rest)"
    using "1.IH" [of ?gap] by simp
  ultimately show ?case by (simp add: Let_def)
qed simp_all

lemma calculateTimeliness_bounds:
  "0 \<le> calculateTimeliness clk xs \<and> calculateTimeliness clk xs \<le> 100"
proof -
  have mix: "0 \<le> r * 0.6 + c * 0.4 \<and> r * 0.6 + c * 0.4 \<le> 100"
    if "0 \<le> r" "r \<le> 100" "0 \<le> c" "c \<le> 100" for r c :: real
  proof -
    have eq: "r * 0.6 + c * 0.4 = 3 * r / 5 + 2 * c / 5" by simp
    show ?thesis unfolding eq using that by (intro conjI) linarith+
  qed
  have cov: "0 \<le> (if n then max 0 (100 - real_of_int (gap_loop 0 rs) / 30) else 50)
      \<and> (if n then max 0 (100 - real_of_int (gap_loop 0 rs) / 30) else 50) \<le> (100::real)"
    for n rs
    using gap_loop_ge [of 0 rs] by simp
  have rec: "0 \<le> max 0 (min 100 x) \<and> max 0 (min 100 x) \<le> (100::real)" for x
    by simp
  show ?thesis
    unfolding calculateTimeliness_def Let_def
    using mix [OF conjunct1 [OF rec] conjunct2 [OF rec] conjunct1 [OF cov] conjunct2 [OF cov]]
    by (simp del: max.bounded_iff min.bounded_iff)
qed

lemma metadata_step_fields:
  assumes "distinct (fieldsWithData m)" "set (fieldsWithData m) \<subseteq> field_names"
  shows "distinct (fieldsWithData (metadata_step m x))
       \<and> set (fieldsWithData (metadata_step m x)) \<subseteq> field_names"
  using assms
  by (auto simp: metadata_step_def Let_def field_names_def split: option.splits)

lemma metadata_foldl_fields:
  assumes "distinct (fieldsWithData m)" "set (fieldsWithData m) \<subseteq> field_names"
  shows "distinct (fieldsWithData (foldl metadata_step m xs))
       \<and> set (fieldsWithData (foldl metadata_step m xs)) \<subseteq> field_names"
  using assms
proof (induction xs arbitrary: m)
  case Nil
  then show ?case by simp
next
  case (Cons x xs)
  from metadata_step_fields [OF Cons.prems]
  have "distinct (fieldsWithData (metadata_step m x))"
    and "set (fieldsWithData (metadata_step m x)) \<subseteq> field_names" by simp_all
  then show ?case using Cons.IH by simp
qed

lemma fieldsWithData_fields:
  "distinct (fieldsWithData (collect_metadata xs))
   \<and> set (fieldsWithData (collect_metadata xs)) \<subseteq> field_names"
  unfolding collect_metadata_def by (rule metadata_foldl_fields) simp_all

lemma fieldsWithData_size_le_5: "length (fieldsWithData (collect_metadata xs)) \<le> 5"
proof -
  let ?fs = "fieldsWithData (collect_metadata xs)"
  have "length ?fs = card (set ?fs)"
    using fieldsWithData_fields [of xs] by (simp add: distinct_card)
  also have "\<dots> \<le> card field_names"
    using fieldsWithData_fields [of xs] by (intro card_mono) (simp_all add: field_names_def)
  also have "\<dots> \<le> 5"
    by (simp add: field_names_def card_insert_if)
  finally show ?thesis .
qed

lemma fieldDiversityScore_bounds:
  "0 \<le> fieldDiversityScore xs \<and> fieldDiversityScore xs \<le> 500 / 6"
  using fieldsWithData_size_le_5 [of xs] by (simp add: fieldDiversityScore_def)

lemma duplicate_foldl_le: "snd (foldl duplicate_step st xs) \<le> snd st + length xs"
proof (induction xs arbitrary: st)
  case Nil
  then show ?case by simp
next
  case (Cons x xs)
  have step: "snd (duplicate_step st x) \<le> snd st + 1"
    by (simp add: duplicate_step_def Let_def)
  have "snd (foldl duplicate_step (duplicate_step st x) xs)
        \<le> snd (duplicate_step st x) + length xs"
    by (rule Cons.IH)
  with step show ?case by simp
qed

lemma metadata_combination:
  fixes fd dd wd ns us :: real
  assumes "0 \<le> fd" "fd \<le> 500 / 6" "0 \<le> dd" "dd \<le> 100" "0 \<le> wd" "wd \<le> 100"
    "0 \<le> ns" "ns \<le> 100" "0 \<le> us" "us \<le> 100"
  shows "0 \<le> fd * 0.25 + ((dd + wd) / 2) * 0.25 + ns * 0.25 + us * 0.25
       \<and> fd * 0.25 + ((dd + wd) / 2) * 0.25 + ns * 0.25 + us * 0.25 \<le> 575 / 6"
proof -
  have eq: "fd * 0.25 + ((dd + wd) / 2) * 0.25 + ns * 0.25 + us * 0.25
      = fd / 4 + dd / 8 + wd / 8 + ns / 4 + us / 4"
    by simp
  show ?thesis unfolding eq using assms by (intro conjI) linarith+
qed

lemma notes_combination:
  fixes a b :: real
  assumes "0 \<le> a" "a \<le> 1" "0 \<le> b" "b \<le> 1"
  shows "0 \<le> a * 30 + b * 70 \<and> a * 30 + b * 70 \<le> 100"
  using assms by (intro conjI) linarith+

lemma calculateMetadataQuality_nonempty_bounds:
  assumes "xs \<noteq> []"
  shows "0 \<le> calculateMetadataQuality xs \<and> calculateMetadataQuality xs \<le> 575 / 6"
proof -
  let ?n = "real (length xs)"
  let ?m = "collect_metadata xs"
  let ?fd = "fieldDiversityScore xs"
  let ?dd = "min 100 ((real (length (divisions ?m)) / max 1 (?n * 0.01)) * 100)"
  let ?wd = "min 100 ((real (length (wards ?m)) / 25) * 100)"
  let ?long = "length (filter (\<lambda>s. truthy_str (notes_field s)
                 \<and> length (trim (show_str_opt (notes_field s))) > 10) xs)"
  let ?any = "length (filter (\<lambda>s. truthy_str (notes_field s)
                 \<and> length (trim (show_str_opt (notes_field s))) > 0) xs)"
  let ?ns = "((real ?any / ?n) * 30) + ((real ?long / ?n) * 70)"
  let ?dup = "snd (foldl duplicate_step ([], 0) xs)"
  let ?us = "((?n - real ?dup) / ?n) * 100"
  from assms have npos: "0 < ?n" by simp
  have fd: "0 \<le> ?fd \<and> ?fd \<le> 500 / 6"
    by (rule fieldDiversityScore_bounds)
  have dd: "0 \<le> ?dd \<and> ?dd \<le> 100" by simp
  have wd: "0 \<le> ?wd \<and> ?wd \<le> 100" by simp
  have "real ?any \<le> ?n" "real ?long \<le> ?n" by simp_all
  then have "real ?any / ?n \<le> 1" "real ?long / ?n \<le> 1"
    using npos by (simp_all add: divide_le_eq)
  moreover have "0 \<le> real ?any / ?n" "0 \<le> real ?long / ?n" by simp_all
  ultimately have ns: "0 \<le> ?ns \<and> ?ns \<le> 100"
    using notes_combination [of "real ?any / ?n" "real ?long / ?n"] by blast
  have "?dup \<le> length xs"
    using duplicate_foldl_le [of "([], 0)" xs] by simp
  then have "0 \<le> ?n - real ?dup" "?n - real ?dup \<le> ?n" by simp_all
  then have us: "0 \<le> ?us \<and> ?us \<le> 100"
    using npos percent_bounds [of "?n - real ?dup" ?n] by simp
  have eq: "calculateMetadataQuality xs
      = ?fd * 0.25 + ((?dd + ?wd) / 2) * 0.25 + ?ns * 0.25 + ?us * 0.25"
    using assms by (simp add: calculateMetadataQuality_def Let_def)
  show ?thesis
    unfolding eq
    using metadata_combination [of ?fd ?dd ?wd ?ns ?us] fd dd wd ns us by blast
qed

lemma calculateMetadataQuality_bounds:
  "0 \<le> calculateMetadataQuality xs \<and> calculateMetadataQuality xs \<le> 100"
proof (cases "xs = []")
  case True
  then show ?thesis by (simp add: calculateMetadataQuality_def)
next
  case False
  from calculateMetadataQuality_nonempty_bounds [OF False] show ?thesis by simp
qed

lemma audit_scores_bounds:
  "\<forall>x \<in> set (dimension_scores (calculateAuditAlignedDataQuality clk xs)). 0 \<le> x \<and> x \<le> 100"
  using calculateCompleteness_bounds [of xs] calculateAccuracy_bounds [of clk xs]
    calculateConsistency_bounds [of xs] calculateTimeliness_bounds [of clk xs]
    calculateMetadataQuality_bounds [of xs]
  by (simp add: dimension_scores_def calculateAuditAlignedDataQuality_def Let_def)

lemma empty_scores_bounds:
  "\<forall>x \<in> set (dimension_scores getEmptyDataQuality). 0 \<le> x \<and> x \<le> 100"
  by (simp add: dimension_scores_def getEmptyDataQuality_def Let_def)

lemma filter_fraction_bounds:
  assumes "xs \<noteq> []"
  shows "0 \<le> real (length (filter P xs)) / real (length xs)
       \<and> real (length (filter P xs)) / real (length xs) \<le> 1"
  using assms by (simp add: divide_le_eq)

lemma disjoint_filter_count:
  assumes "\<And>x. \<not> (P x \<and> Q x)"
  shows "length (filter P xs) + length (filter Q xs) \<le> length xs"
proof (induction xs)
  case Nil
  then show ?case by simp
next
  case (Cons x xs)
  with assms [of x] show ?case by auto
qed

lemma mean6:
  fixes a b c d e f :: real
  assumes "0 \<le> a \<and> a \<le> 1" "0 \<le> b \<and> b \<le> 1" "0 \<le> c \<and> c \<le> 1"
          "0 \<le> d \<and> d \<le> 1" "0 \<le> e \<and> e \<le> 1" "0 \<le> f \<and> f \<le> 1"
  shows "0 \<le> (foldl (\<lambda>sum val. sum + val) 0 [a, b, c, d, e, f]
                 / real (length [a, b, c, d, e, f])) * 100
       \<and> (foldl (\<lambda>sum val. sum + val) 0 [a, b, c, d, e, f]
                 / real (length [a, b, c, d, e, f])) * 100 \<le> 100"
  using assms by simp

lemma calculateDataQualityMetrics_bounds:
  assumes "xs \<noteq> []"
  shows "\<forall>x \<in> set (dimension_scores (calculateDataQualityMetrics clk xs)). 0 \<le> x \<and> x \<le> 100"
proof -
  let ?n = "real (length xs)"
  from assms have npos: "0 < ?n" by simp
  have frac: "0 \<le> (real (length (filter P xs)) / ?n) * 100
            \<and> (real (length (filter P xs)) / ?n) * 100 \<le> 100" for P
    using percent_bounds [of "real (length (filter P xs))" ?n] npos by simp
  let ?valid = "\<lambda>s. case ward s of None \<Rightarrow> False | Some w \<Rightarrow> w \<noteq> 0 \<and> w \<ge> 1 \<and> w \<le> 25"
  let ?w66 = "\<lambda>s. ward s = Some 66"
  have "length (filter ?valid xs) + length (filter ?w66 xs) \<le> length xs"
    by (rule disjoint_filter_count) (auto split: option.splits)
  then have "real (length (filter ?valid xs) + length (filter ?w66 xs)) \<le> ?n"
    by (simp only: of_nat_le_iff)
  then have acc: "0 \<le> (real (length (filter ?valid xs) + length (filter ?w66 xs)) / ?n) * 100
       \<and> (real (length (filter ?valid xs) + length (filter ?w66 xs)) / ?n) * 100 \<le> 100"
    using percent_bounds [of "real (length (filter ?valid xs) + length (filter ?w66 xs))" ?n] npos
    by simp
  have val: "0 \<le> (real (length (filter P xs) + length (filter Q xs)) / (?n * 2)) * 100
       \<and> (real (length (filter P xs) + length (filter Q xs)) / (?n * 2)) * 100 \<le> 100" for P Q
  proof -
    have "length (filter P xs) + length (filter Q xs) \<le> length xs * 2"
      using length_filter_le [of P xs] length_filter_le [of Q xs] by linarith
    then have "real (length (filter P xs) + length (filter Q xs)) \<le> real (length xs * 2)"
      by (simp only: of_nat_le_iff)
    then have "real (length (filter P xs) + length (filter Q xs)) \<le> ?n * 2" by simp
    with percent_bounds [of "real (length (filter P xs) + length (filter Q xs))" "?n * 2"] npos
    show ?thesis by simp
  qed
  have comp: "0 \<le> (foldl (\<lambda>sum val. sum + val) 0
                 [real (length (filter P1 xs)) / ?n, real (length (filter P2 xs)) / ?n,
                  real (length (filter P3 xs)) / ?n, real (length (filter P4 xs)) / ?n,
                  real (length (filter P5 xs)) / ?n, real (length (filter P6 xs)) / ?n]
               / real (length [real (length (filter P1 xs)) / ?n, real (length (filter P2 xs)) / ?n,
                  real (length (filter P3 xs)) / ?n, real (length (filter P4 xs)) / ?n,
                  real (length (filter P5 xs)) / ?n, real (length (filter P6 xs)) / ?n])) * 100
      \<and> (foldl (\<lambda>sum val. sum + val) 0
                 [real (length (filter P1 xs)) / ?n, real (length (filter P2 xs)) / ?n,
                  real (length (filter P3 xs)) / ?n, real (length (filter P4 xs)) / ?n,
                  real (length (filter P5 xs)) / ?n, real (length (filter P6 xs)) / ?n]
               / real (length [real (length (filter P1 xs)) / ?n, real (length (filter P2 xs)) / ?n,
                  real (length (filter P3 xs)) / ?n, real (length (filter P4 xs)) / ?n,
                  real (length (filter P5 xs)) / ?n, real (length (filter P6 xs)) / ?n])) * 100 \<le> 100"
    for P1 P2 P3 P4 P5 P6
    by (rule mean6) (rule filter_fraction_bounds [OF assms])+
  show ?thesis
    using assms comp acc frac val
    by (simp add: calculateDataQualityMetrics_def dimension_scores_def Let_def
        del: foldl_Cons)
qed

text \<open>
  Claim C2. For every record set each of the five dimension scores the quality calculator
  returns (completeness, accuracy, consistency, timeliness, metadata) lies within 0 and 100.
  The same holds for what the handler of the data readiness endpoint returns and for the
  quality metrics of the dashboard endpoint.
\<close>

theorem dimension_scores_in_range:
  "(\<forall>x \<in> set (dimension_scores (calculateAuditAlignedDataQuality clk services)).
      0 \<le> x \<and> x \<le> 100)
   \<and> (\<forall>x \<in> set (dimension_scores (dataQuality (data_readiness_handler clk services))).
      0 \<le> x \<and> x \<le> 100)
   \<and> (\<forall>x \<in> set (dimension_scores (dashboard_dataQuality clk services)).
      0 \<le> x \<and> x \<le> 100)"
proof (intro conjI)
  show "\<forall>x \<in> set (dimension_scores (calculateAuditAlignedDataQuality clk services)).
      0 \<le> x \<and> x \<le> 100"
    by (rule audit_scores_bounds)
  show "\<forall>x \<in> set (dimension_scores (dataQuality (data_readiness_handler clk services))).
      0 \<le> x \<and> x \<le> 100"
    using audit_scores_bounds [of clk services] empty_scores_bounds
    by (simp add: data_readiness_handler_def Let_def)
  show "\<forall>x \<in> set (dimension_scores (dashboard_dataQuality clk services)).
      0 \<le> x \<and> x \<le> 100"
  proof (cases "services = []")
    case True
    then show ?thesis using empty_scores_bounds by (simp add: dashboard_dataQuality_def)
  next
    case False
    then show ?thesis
      using calculateDataQualityMetrics_bounds [OF False, of clk]
      by (simp add: dashboard_dataQuality_def)
  qed
qed

theorem dimension_scores_in_range_witness:
  "dimension_scores (calculateAuditAlignedDataQuality example_clock [example_service])
     = [100, 100, 100, 5672 / 73, 503 / 6]
   \<and> 0 \<le> score (timeliness (calculateAuditAlignedDataQuality example_clock [example_service]))
   \<and> score (timeliness (calculateAuditAlignedDataQuality example_clock [example_service])) \<le> 100
   \<and> 0 \<le> score (validity (calculateAuditAlignedDataQuality example_clock [example_service]))
   \<and> score (validity (calculateAuditAlignedDataQuality example_clock [example_service])) \<le> 100"
proof -
  have scores: "dimension_scores (calculateAuditAlignedDataQuality example_clock [example_service])
     = [100, 100, 100, 5672 / 73, 503 / 6]"
    by (simp add: dimension_scores_def calculateAuditAlignedDataQuality_def Let_def
        example_accuracy example_completeness example_consistency example_timeliness
        example_metadata)
  have "\<forall>x \<in> set (dimension_scores
            (calculateAuditAlignedDataQuality example_clock [example_service])).
          0 \<le> x \<and> x \<le> 100"
    using dimension_scores_in_range [of example_clock "[example_service]"] by blast
  then have
    "0 \<le> score (timeliness (calculateAuditAlignedDataQuality example_clock [example_service]))
     \<and> score (timeliness (calculateAuditAlignedDataQuality example_clock [example_service])) \<le> 100
     \<and> 0 \<le> score (validity (calculateAuditAlignedDataQuality example_clock [example_service]))
     \<and> score (validity (calculateAuditAlignedDataQuality example_clock [example_service])) \<le> 100"
    by (simp add: dimension_scores_def)
  with scores show ?thesis by blast
qed

subsection \<open>The metadata score cannot reach 100\<close>

text \<open>
  Claim C10. For every non-empty record set the metadata quality score is at most 95.84
  (at most 575/6) and so never reaches 100: at most the five names division, result, ward,
  cost and notes enter the set of populated fields, whose size is divided by 6, so the field
  diversity score is at most 500/6 (83.33). The score equals 100 only for the empty record
  set.
\<close>

theorem metadata_score_capped:
  "set (fieldsWithData (collect_metadata services)) \<subseteq> field_names
   \<and> length (fieldsWithData (collect_metadata services)) \<le> 5
   \<and> fieldDiversityScore services \<le> 500 / 6
   \<and> (services \<noteq> [] \<longrightarrow> calculateMetadataQuality services \<le> 575 / 6
         \<and> calculateMetadataQuality services \<le> 95.84
         \<and> calculateMetadataQuality services < 100)
   \<and> (calculateMetadataQuality services = 100 \<longleftrightarrow> services = [])"
proof -
  have nonempty: "calculateMetadataQuality services \<le> 575 / 6" if "services \<noteq> []"
    using calculateMetadataQuality_nonempty_bounds [OF that] by simp
  have empty: "calculateMetadataQuality [] = 100"
    by (simp add: calculateMetadataQuality_def)
  have iff: "calculateMetadataQuality services = 100 \<longleftrightarrow> services = []"
  proof
    assume "calculateMetadataQuality services = 100"
    then show "services = []" using nonempty by (cases "services = []") simp_all
  next
    assume "services = []"
    then show "calculateMetadataQuality services = 100" using empty by simp
  qed
  have cap: "services \<noteq> [] \<longrightarrow> calculateMetadataQuality services \<le> 575 / 6
         \<and> calculateMetadataQuality services \<le> 95.84
         \<and> calculateMetadataQuality services < 100"
    using nonempty by auto
  from fieldsWithData_fields [of services] fieldsWithData_size_le_5 [of services]
    fieldDiversityScore_bounds [of services] cap iff
  show ?thesis by blast
qed

theorem metadata_score_capped_witness:
  "[example_service] \<noteq> []
   \<and> calculateMetadataQuality [example_service] = 503 / 6
   \<and> calculateMetadataQuality [example_service] \<le> 95.84
   \<and> fieldDiversityScore [example_service] = 500 / 6"
proof -
  have fd: "fieldDiversityScore [example_service] = 500 / 6"
    by (simp add: fieldDiversityScore_def collect_metadata_def metadata_step_def
        example_service_def truthy_defs)
  have ne: "[example_service] \<noteq> []" by simp
  from metadata_score_capped [of "[example_service]"] ne
  have "calculateMetadataQuality [example_service] \<le> 95.84" by blast
  with fd ne example_metadata show ?thesis by blast
qed

subsection \<open>The empty record set\<close>

lemma timeliness_undated:
  assumes "\<forall>s \<in> set services. \<not> truthy_date (end_date s)"
  shows "calculateTimeliness clk services = 0"
proof -
  from assms have "filter (\<lambda>s. truthy_date (end_date s)) services = []"
    by (simp add: filter_empty_conv)
  then show ?thesis by (simp add: calculateTimeliness_def)
qed

text \<open>
  Claim C8. On the empty record set the dimension calculators return defined scores:
  completeness and consistency (and accuracy and metadata) return 100, timeliness returns 0,
  as it does for every record set in which no record has an end date, and the overall score
  is computed (80, the mean of the five). The calculators are total functions of the model:
  every division in them is guarded by the test for no records, and none has an error
  outcome. For the empty record set the handler does not call them: it returns the empty
  quality structure, with every score 0, and the empty readiness structure, whose critical
  issues hold the marker \<^verbatim>\<open>No data available for analysis\<close>.
\<close>

theorem empty_record_set_defined:
  "calculateCompleteness [] = 100
   \<and> calculateConsistency [] = 100
   \<and> calculateAccuracy clk [] = 100
   \<and> calculateMetadataQuality [] = 100
   \<and> calculateTimeliness clk [] = 0
   \<and> ((\<forall>s \<in> set services. \<not> truthy_date (end_date s)) \<longrightarrow> calculateTimeliness clk services = 0)
   \<and> overallScore (calculateAuditAlignedDataQuality clk []) = 80
   \<and> overallScore (calculateAuditAlignedDataQuality clk [])
       = arithmetic_mean (dimension_scores (calculateAuditAlignedDataQuality clk []))
   \<and> dataQuality (data_readiness_handler clk []) = getEmptyDataQuality
   \<and> readinessMetrics (data_readiness_handler clk []) = getEmptyReadinessMetrics
   \<and> ''No data available for analysis''
       \<in> set (criticalIssues (readinessMetrics (data_readiness_handler clk [])))"
proof -
  have q: "dataQuality (data_readiness_handler clk []) = getEmptyDataQuality"
    by (simp add: data_readiness_handler_def)
  have t0: "calculateTimeliness clk [] = 0"
    by (simp add: calculateTimeliness_def)
  have c: "calculateCompleteness [] = 100" by (simp add: calculateCompleteness_def)
  have k: "calculateConsistency [] = 100" by (simp add: calculateConsistency_def)
  have a: "calculateAccuracy clk [] = 100" by (simp add: calculateAccuracy_def)
  have m: "calculateMetadataQuality [] = 100" by (simp add: calculateMetadataQuality_def)
  have o: "overallScore (calculateAuditAlignedDataQuality clk []) = 80"
    by (simp add: calculateAuditAlignedDataQuality_def Let_def t0 c k a m)
  have mean: "overallScore (calculateAuditAlignedDataQuality clk [])
       = arithmetic_mean (dimension_scores (calculateAuditAlignedDataQuality clk []))"
    by (simp add: calculateAuditAlignedDataQuality_def Let_def arithmetic_mean_def
        dimension_scores_def)
  have h: "readinessMetrics (data_readiness_handler clk []) = getEmptyReadinessMetrics"
    by (simp add: data_readiness_handler_def)
  have marker: "''No data available for analysis''
       \<in> set (criticalIssues (readinessMetrics (data_readiness_handler clk [])))"
    by (simp add: h getEmptyReadinessMetrics_def)
  have undated: "(\<forall>s \<in> set services. \<not> truthy_date (end_date s))
      \<longrightarrow> calculateTimeliness clk services = 0"
    using timeliness_undated [of services clk] by blast
  from c k a m t0 undated o mean q h marker show ?thesis by blast
qed

theorem empty_record_set_defined_witness:
  "\<not> truthy_date (end_date example_undated)
   \<and> calculateTimeliness example_clock [example_undated, example_undated] = 0
   \<and> criticalIssues (readinessMetrics (data_readiness_handler example_clock []))
       = [''No data available for analysis'']"
proof -
  have u: "\<not> truthy_date (end_date example_undated)"
    by (simp add: example_undated_def truthy_date_def)
  then have all: "\<forall>s \<in> set [example_undated, example_undated]. \<not> truthy_date (end_date s)"
    by simp
  from empty_record_set_defined [of example_clock "[example_undated, example_undated]"] all
  have t: "calculateTimeliness example_clock [example_undated, example_undated] = 0"
    by blast
  from empty_record_set_defined [of example_clock "[example_undated, example_undated]"]
  have "readinessMetrics (data_readiness_handler example_clock []) = getEmptyReadinessMetrics"
    by blast
  then have "criticalIssues (readinessMetrics (data_readiness_handler example_clock []))
       = [''No data available for analysis'']"
    by (simp add: getEmptyReadinessMetrics_def)
  with u t show ?thesis by blast
qed


subsection \<open>The accuracy score\<close>

lemmas example_defs =
  example_service_def example_clock_def example_two_violations_def example_no_result_def
  example_empty_result_def example_literal_unknown_def example_undated_def

lemma accuracy_step_first_violation:
  assumes "truthy_str (service_result s)"
  shows "accuracy_step clk a s = a + first_violation clk s"
  using assms
  by (auto simp: accuracy_step_def first_violation_def date_violation_def result_is_unknown_def
      truthy_str_def unrecognized_result_def split: option.splits)

lemma accuracy_foldl_first_violation:
  assumes "\<forall>s \<in> set xs. truthy_str (service_result s)"
  shows "foldl (accuracy_step clk) a xs = a + sum_list (map (first_violation clk) xs)"
  using assms
proof (induction xs arbitrary: a)
  case Nil
  then show ?case by simp
next
  case (Cons x xs)
  then have "accuracy_step clk a x = a + first_violation clk x"
    by (simp add: accuracy_step_first_violation)
  moreover have "foldl (accuracy_step clk) (accuracy_step clk a x) xs
      = accuracy_step clk a x + sum_list (map (first_violation clk) xs)"
    using Cons by simp
  ultimately show ?case by simp
qed

text \<open>
  Claim C6, as amended. For every record set whose records all carry a result (not
  \<^verbatim>\<open>null\<close>, not empty), the accuracy score is 100 times (total minus penalties) over total,
  floored at 0, and 100 for the empty set, where a record has one penalty only: 1 if its ward
  is outside 1 to 25, or a date is outside the window from fifty years back to one year ahead,
  or its end date precedes its start date, or its cost is negative, or its result is not one of
  PASS, FAIL, UNKNOWN; otherwise 0.5 if its result is UNKNOWN. Penalties of one record do not
  add up.
\<close>

theorem accuracy_one_penalty_per_record:
  assumes "\<forall>s \<in> set services. truthy_str (service_result s)"
  shows "calculateAccuracy clk services = amended_accuracy clk services"
proof (cases "services = []")
  case True
  then show ?thesis by (simp add: calculateAccuracy_def amended_accuracy_def)
next
  case False
  let ?n = "real (length services)"
  let ?v = "sum_list (map (first_violation clk) services)"
  have fold: "foldl (accuracy_step clk) 0 services = ?v"
    using accuracy_foldl_first_violation [OF assms, of clk 0] by simp
  have code: "calculateAccuracy clk services = ((?n - ?v) / ?n) * 100"
    using False fold by (simp add: calculateAccuracy_def Let_def)
  have "0 \<le> calculateAccuracy clk services"
    using calculateAccuracy_bounds [of clk services] by simp
  then have "0 \<le> 100 * (?n - ?v) / ?n"
    using code by (simp add: mult.commute)
  then have "amended_accuracy clk services = 100 * (?n - ?v) / ?n"
    using False by (simp add: amended_accuracy_def)
  with code show ?thesis by (simp add: mult.commute)
qed

theorem accuracy_one_penalty_per_record_witness:
  "truthy_str (service_result example_two_violations)
   \<and> truthy_str (service_result example_literal_unknown)
   \<and> amended_accuracy example_clock [example_two_violations, example_literal_unknown] = 25
   \<and> calculateAccuracy example_clock [example_two_violations, example_literal_unknown] = 25"
proof -
  have t: "truthy_str (service_result example_two_violations)"
    "truthy_str (service_result example_literal_unknown)"
    by (simp_all add: example_defs truthy_str_def)
  then have all: "\<forall>s \<in> set [example_two_violations, example_literal_unknown].
      truthy_str (service_result s)"
    by simp
  have a: "amended_accuracy example_clock [example_two_violations, example_literal_unknown] = 25"
    by (simp add: amended_accuracy_def first_violation_def date_violation_def
        result_is_unknown_def accuracy_check_defs example_defs)
  from accuracy_one_penalty_per_record [OF all, of example_clock] a
  have "calculateAccuracy example_clock [example_two_violations, example_literal_unknown] = 25"
    by simp
  with t a show ?thesis by blast
qed

text \<open>
  Claim C6 as stated fails: of two records, one with ward 66 and a negative cost and one
  without a violation, the additive formula counts two violations and gives 0, and the code
  counts the first record once and gives 50.
\<close>

theorem accuracy_additive_counterexample:
  "spec_accuracy example_clock [example_two_violations, example_service] = 0
   \<and> calculateAccuracy example_clock [example_two_violations, example_service] = 50"
proof -
  have "spec_accuracy example_clock [example_two_violations, example_service] = 0"
    by (simp add: spec_accuracy_def spec_violations_def date_violation_def
        result_is_unknown_def accuracy_check_defs example_defs)
  moreover have "calculateAccuracy example_clock [example_two_violations, example_service] = 50"
    by (simp add: calculateAccuracy_def accuracy_step_def accuracy_check_defs example_defs)
  ultimately show ?thesis by blast
qed

subsection \<open>Records without a result\<close>

lemma absent_result_incomplete:
  assumes "service_result s = None \<or> service_result s = Some []"
  shows "\<not> hasAllRequiredFields s"
  using assms by (auto simp: hasAllRequiredFields_def truthy_str_def)

lemma absent_result_accuracy_step:
  assumes "service_result s = None \<or> service_result s = Some []"
    and "\<not> invalid_ward s" "\<not> date_violation clk s" "\<not> negative_cost s"
  shows "accuracy_step clk a s = a"
  using assms
  by (auto simp: accuracy_step_def date_violation_def unrecognized_result_def)

text \<open>
  Claim C7 at a failing input. The example record with its result \<^verbatim>\<open>null\<close> (or empty) is
  a gap for completeness, which scores 0 on it, and yet accuracy scores 100 on it: the half
  penalty is taken only by a record whose result is the text \<^verbatim>\<open>UNKNOWN\<close>, on which
  accuracy scores 50.
\<close>

theorem absent_result_not_penalised:
  "\<not> hasAllRequiredFields example_no_result
   \<and> calculateCompleteness [example_no_result] = 0
   \<and> calculateCompleteness [example_empty_result] = 0
   \<and> calculateAccuracy example_clock [example_no_result] = 100
   \<and> calculateAccuracy example_clock [example_empty_result] = 100
   \<and> calculateAccuracy example_clock [example_literal_unknown] = 50"
proof -
  have h: "\<not> hasAllRequiredFields example_no_result"
    by (simp add: hasAllRequiredFields_def example_defs truthy_defs)
  have c1: "calculateCompleteness [example_no_result] = 0"
    by (simp add: calculateCompleteness_def completeness_step_def hasAllRequiredFields_def
        example_defs truthy_defs)
  have c2: "calculateCompleteness [example_empty_result] = 0"
    by (simp add: calculateCompleteness_def completeness_step_def hasAllRequiredFields_def
        example_defs truthy_defs)
  have a1: "calculateAccuracy example_clock [example_no_result] = 100"
    by (simp add: calculateAccuracy_def accuracy_step_def accuracy_check_defs example_defs)
  have a2: "calculateAccuracy example_clock [example_empty_result] = 100"
    by (simp add: calculateAccuracy_def accuracy_step_def accuracy_check_defs example_defs)
  have a3: "calculateAccuracy example_clock [example_literal_unknown] = 50"
    by (simp add: calculateAccuracy_def accuracy_step_def accuracy_check_defs example_defs)
  from h c1 c2 a1 a2 a3 show ?thesis by blast
qed

theorem absent_result_not_penalised_witness:
  "calculateAccuracy example_clock [example_no_result]
     \<noteq> calculateAccuracy example_clock [example_literal_unknown]"
  using absent_result_not_penalised by simp


subsection \<open>The ward efficiency ranking\<close>

lemma ties_from_stability:
  assumes "\<forall>c. sorted_wrt P (filter (\<lambda>w. k w = c) xs)"
  shows "sorted_wrt (\<lambda>x y. k x = k y \<longrightarrow> P x y) xs"
  using assms
proof (induction xs)
  case Nil
  then show ?case by simp
next
  case (Cons x xs)
  have tail: "\<forall>c. sorted_wrt P (filter (\<lambda>w. k w = c) xs)"
  proof
    fix c
    from Cons.prems have "sorted_wrt P (filter (\<lambda>w. k w = c) (x # xs))" by blast
    then show "sorted_wrt P (filter (\<lambda>w. k w = c) xs)"
      by (cases "k x = c") simp_all
  qed
  from Cons.prems have "sorted_wrt P (filter (\<lambda>w. k w = k x) (x # xs))" by blast
  then have head: "\<forall>y \<in> set xs. k x = k y \<longrightarrow> P x y" by auto
  from head Cons.IH [OF tail] show ?case by simp
qed

lemma ward_metrics_ward [simp]: "wm_ward (ward_metrics services k) = k"
  by (simp add: ward_metrics_def Let_def)

lemma ward_metrics_group_efficiency:
  "wm_costEfficiency (ward_metrics services k)
     = group_efficiency (wm_passRate (ward_metrics services k)) (wm_avgCost (ward_metrics services k))"
  by (simp add: ward_metrics_def Let_def group_efficiency_def zero_less_divide_iff)

lemma ward_metrics_passRate_nonneg: "0 \<le> wm_passRate (ward_metrics services k)"
  by (simp add: ward_metrics_def Let_def)

lemma efficiencyScore_scaled:
  "efficiencyScore (efficiency_item (ward_metrics services k))
     = 100 * wm_costEfficiency (ward_metrics services k)"
proof -
  let ?w = "ward_metrics services k"
  have ge: "0 \<le> wm_passRate ?w" by (rule ward_metrics_passRate_nonneg)
  show ?thesis
  proof (cases "wm_passRate ?w > 0")
    case True
    then show ?thesis
      by (simp add: efficiency_item_def Let_def ward_metrics_group_efficiency group_efficiency_def)
  next
    case False
    with ge have "wm_passRate ?w = 0" by simp
    then show ?thesis
      by (simp add: efficiency_item_def Let_def ward_metrics_group_efficiency group_efficiency_def)
  qed
qed

lemma validWards_eq:
  "validWards (calculateWardAnalysis services)
     = filter (\<lambda>w. wm_totalServices w > 0) (map (ward_metrics services) [1..25])"
  by (simp add: calculateWardAnalysis_def Let_def)

lemma validWards_member:
  assumes "w \<in> set (validWards (calculateWardAnalysis services))"
  shows "\<exists>k. 1 \<le> k \<and> k \<le> 25 \<and> w = ward_metrics services k"
  using assms by (auto simp: validWards_eq)

lemma upto_1_25: "[1..25::int] = [1,2,3,4,5,6,7,8,9,10,11,12,13,14,15,16,17,18,19,20,21,22,23,24,25]"
  by code_simp

text \<open>Without rounding the functions are those of the exact model.\<close>

lemma rounded_sum_cost_exact: "rounded_sum_cost (\<lambda>x. x) xs = sum_cost xs"
  by (simp add: rounded_sum_cost_def sum_cost_def)

lemma rounded_ward_metrics_exact: "rounded_ward_metrics (\<lambda>x. x) services k = ward_metrics services k"
  by (simp add: rounded_ward_metrics_def ward_metrics_def rounded_sum_cost_exact)

lemma rounded_efficiency_item_exact: "rounded_efficiency_item (\<lambda>x. x) w = efficiency_item w"
  by (simp add: rounded_efficiency_item_def efficiency_item_def)

lemma calculateWardAnalysis_rounded_exact:
  "calculateWardAnalysis_rounded (\<lambda>x. x) services = calculateWardAnalysis services"
proof -
  have m: "rounded_ward_metrics (\<lambda>x. x) services = ward_metrics services"
    by (rule ext) (rule rounded_ward_metrics_exact)
  have e: "rounded_efficiency_item (\<lambda>x. x) = efficiency_item"
    by (rule ext) (rule rounded_efficiency_item_exact)
  show ?thesis
    unfolding calculateWardAnalysis_rounded_def calculateWardAnalysis_def m e
      rounded_sum_cost_exact ..
qed

lemma rounded_ward_metrics_ward [simp]: "wm_ward (rounded_ward_metrics fl services k) = k"
  by (simp add: rounded_ward_metrics_def Let_def)

lemma rounded_efficiency_item_ward [simp]: "ei_ward (rounded_efficiency_item fl w) = wm_ward w"
  by (simp add: rounded_efficiency_item_def Let_def)

lemma rounded_validWards_eq:
  "validWards (calculateWardAnalysis_rounded fl services)
     = filter (\<lambda>w. wm_totalServices w > 0) (map (rounded_ward_metrics fl services) [1..25])"
  by (simp add: calculateWardAnalysis_rounded_def Let_def)

lemma rounded_ranking_eq:
  "wardEfficiencyRanking (calculateWardAnalysis_rounded fl services)
     = map (\<lambda>(index, item). item\<lparr>rank := index + 1\<rparr>)
         (enumerate 0 (sort_key (\<lambda>item. - efficiencyScore item)
            (map (rounded_efficiency_item fl)
               (validWards (calculateWardAnalysis_rounded fl services)))))"
  by (simp add: calculateWardAnalysis_rounded_def Let_def)

lemma rounded_validWards_strictly_ascending:
  "sorted_wrt (\<lambda>x y. wm_ward x < wm_ward y) (validWards (calculateWardAnalysis_rounded fl services))"
proof -
  have "sorted_wrt (<) [1..25::int]"
    by (simp add: strict_sorted_iff)
  then have "sorted_wrt (\<lambda>x y. wm_ward x < wm_ward y)
      (map (rounded_ward_metrics fl services) [1..25])"
    by (simp add: sorted_wrt_map)
  then show ?thesis
    unfolding rounded_validWards_eq by (rule sorted_wrt_filter)
qed

lemma ranked_projection:
  "map (\<lambda>a. (ei_ward a, efficiencyScore a))
     (map (\<lambda>(index, item). item\<lparr>rank := index + 1\<rparr>) (enumerate 0 items))
   = map (\<lambda>a. (ei_ward a, efficiencyScore a)) items"
proof -
  have "map (\<lambda>a. (ei_ward a, efficiencyScore a))
     (map (\<lambda>(index, item). item\<lparr>rank := index + 1\<rparr>) (enumerate 0 items))
     = map (\<lambda>p. (ei_ward (snd p), efficiencyScore (snd p))) (enumerate 0 items)"
    by (simp add: case_prod_unfold)
  also have "\<dots> = map (\<lambda>a. (ei_ward a, efficiencyScore a)) (map snd (enumerate 0 items))"
    by (simp only: map_map comp_def)
  finally show ?thesis by simp
qed

lemma ranked_ranks:
  "map rank (map (\<lambda>(index, item). item\<lparr>rank := index + 1\<rparr>) (enumerate 0 items))
   = [1..<length items + 1]"
proof -
  have "map rank (map (\<lambda>(index, item). item\<lparr>rank := index + 1\<rparr>) (enumerate 0 items))
      = map (\<lambda>p. Suc (fst p)) (enumerate 0 items)"
    by (simp add: case_prod_unfold)
  also have "\<dots> = map Suc (map fst (enumerate 0 items))"
    by (simp only: map_map comp_def)
  also have "\<dots> = [1..<length items + 1]"
    by (simp add: map_Suc_upt)
  finally show ?thesis .
qed

text \<open>
  Claim C4, as amended. For every record set, and whatever the rounding of the arithmetic,
  the ward efficiency ranking is a permutation of the valid wards (same length, no ward
  twice, every entry the ward number and the efficiency score of a valid ward), its ranks are
  1 to N in list order, it is ordered by non-increasing efficiency score, and among entries of
  equal efficiency score the original order of the valid wards, which is ascending ward
  number, is kept. The order is that of the efficiency score the ranking computes, not that
  of the cost efficiency the valid wards report.
\<close>

theorem ward_ranking_by_efficiencyScore:
  "length (wardEfficiencyRanking (calculateWardAnalysis_rounded fl services))
     = length (validWards (calculateWardAnalysis_rounded fl services))
   \<and> distinct (map ei_ward (wardEfficiencyRanking (calculateWardAnalysis_rounded fl services)))
   \<and> set (map ei_ward (wardEfficiencyRanking (calculateWardAnalysis_rounded fl services)))
     = set (map wm_ward (validWards (calculateWardAnalysis_rounded fl services)))
   \<and> set (map (\<lambda>a. (ei_ward a, efficiencyScore a))
          (wardEfficiencyRanking (calculateWardAnalysis_rounded fl services)))
     = set (map (\<lambda>w. (wm_ward w, efficiencyScore (rounded_efficiency_item fl w)))
          (validWards (calculateWardAnalysis_rounded fl services)))
   \<and> map rank (wardEfficiencyRanking (calculateWardAnalysis_rounded fl services))
     = [1..<length (validWards (calculateWardAnalysis_rounded fl services)) + 1]
   \<and> sorted_wrt (\<lambda>a b. efficiencyScore a \<ge> efficiencyScore b)
       (wardEfficiencyRanking (calculateWardAnalysis_rounded fl services))
   \<and> sorted_wrt (\<lambda>a b. efficiencyScore a = efficiencyScore b \<longrightarrow> ei_ward a < ei_ward b)
       (wardEfficiencyRanking (calculateWardAnalysis_rounded fl services))"
proof -
  let ?V = "validWards (calculateWardAnalysis_rounded fl services)"
  let ?R = "wardEfficiencyRanking (calculateWardAnalysis_rounded fl services)"
  let ?I = "map (rounded_efficiency_item fl) ?V"
  let ?k = "\<lambda>item. - efficiencyScore item"
  let ?S = "sort_key ?k ?I"
  let ?q = "\<lambda>a. (ei_ward a, efficiencyScore a)"
  have R: "?R = map (\<lambda>(index, item). item\<lparr>rank := index + 1\<rparr>) (enumerate 0 ?S)"
    by (rule rounded_ranking_eq)
  have q: "map ?q ?R = map ?q ?S"
    unfolding R by (rule ranked_projection)
  have len: "length ?R = length ?V"
    unfolding R by simp
  have ranks: "map rank ?R = [1..<length ?V + 1]"
    unfolding R using ranked_ranks [of ?S] by simp
  have pairs: "set (map ?q ?R)
      = set (map (\<lambda>w. (wm_ward w, efficiencyScore (rounded_efficiency_item fl w))) ?V)"
  proof -
    have "set (map ?q ?R) = ?q ` set ?I"
      unfolding q by simp
    also have "\<dots> = set (map (\<lambda>w. (wm_ward w, efficiencyScore (rounded_efficiency_item fl w))) ?V)"
      by (simp add: image_image)
    finally show ?thesis .
  qed
  have asc_I: "sorted_wrt (\<lambda>x y. ei_ward x < ei_ward y) ?I"
    using rounded_validWards_strictly_ascending [of fl services] by (simp add: sorted_wrt_map)
  have wards: "map ei_ward ?R = map ei_ward ?S"
    using arg_cong [OF q, of "map fst"] by (simp add: comp_def)
  have dist: "distinct (map ei_ward ?R)"
  proof -
    have "sorted_wrt (<) (map ei_ward ?I)"
      using asc_I by (simp add: sorted_wrt_map)
    then have dI: "distinct (map ei_ward ?I)" by (simp add: strict_sorted_iff)
    have "distinct (map ei_ward ?S)"
    proof (rule card_distinct)
      have s: "set (map ei_ward ?S) = set (map ei_ward ?I)"
        by (simp only: set_map set_sort)
      have "card (set (map ei_ward ?S)) = card (set (map ei_ward ?I))"
        by (simp only: s)
      also have "\<dots> = length (map ei_ward ?I)" using dI by (rule distinct_card)
      finally show "card (set (map ei_ward ?S)) = length (map ei_ward ?S)"
        by (simp only: length_map length_sort)
    qed
    then show ?thesis by (simp only: wards)
  qed
  have desc_S: "sorted_wrt (\<lambda>a b. efficiencyScore a \<ge> efficiencyScore b) ?S"
  proof -
    have "sorted (map ?k ?S)" by (rule sorted_sort_key)
    then show ?thesis by (simp add: sorted_wrt_map)
  qed
  have ties_S: "sorted_wrt (\<lambda>a b. efficiencyScore a = efficiencyScore b \<longrightarrow> ei_ward a < ei_ward b) ?S"
  proof -
    have "\<forall>c. sorted_wrt (\<lambda>x y. ei_ward x < ei_ward y) (filter (\<lambda>w. ?k w = c) ?S)"
    proof
      fix c
      have "filter (\<lambda>w. ?k w = c) ?S = filter (\<lambda>w. ?k w = c) ?I"
        by (rule sort_key_stable)
      with sorted_wrt_filter [OF asc_I, of "\<lambda>w. ?k w = c"]
      show "sorted_wrt (\<lambda>x y. ei_ward x < ei_ward y) (filter (\<lambda>w. ?k w = c) ?S)"
        by simp
    qed
    from ties_from_stability [OF this] show ?thesis by simp
  qed
  have desc: "sorted_wrt (\<lambda>a b. efficiencyScore a \<ge> efficiencyScore b) ?R"
  proof -
    have "sorted_wrt (\<lambda>x y. snd x \<ge> snd y) (map ?q ?S)"
      using desc_S by (simp add: sorted_wrt_map)
    then have "sorted_wrt (\<lambda>x y. snd x \<ge> snd y) (map ?q ?R)"
      by (simp only: q)
    then show ?thesis by (simp add: sorted_wrt_map)
  qed
  have ties: "sorted_wrt (\<lambda>a b. efficiencyScore a = efficiencyScore b \<longrightarrow> ei_ward a < ei_ward b) ?R"
  proof -
    have "sorted_wrt (\<lambda>x y. snd x = snd y \<longrightarrow> fst x < fst y) (map ?q ?S)"
      using ties_S by (simp add: sorted_wrt_map)
    then have "sorted_wrt (\<lambda>x y. snd x = snd y \<longrightarrow> fst x < fst y) (map ?q ?R)"
      by (simp only: q)
    then show ?thesis by (simp add: sorted_wrt_map)
  qed
  have "set (map ei_ward ?S) = set (map ei_ward ?I)"
    by (simp only: set_map set_sort)
  also have "\<dots> = set (map wm_ward ?V)"
    by (simp add: image_image)
  finally have sets: "set (map ei_ward ?R) = set (map wm_ward ?V)"
    by (simp only: wards)
  from len dist sets pairs ranks desc ties show ?thesis by blast
qed

subsection \<open>Rounding to a double\<close>

text \<open>
  The value of \<open>binary64\<close> at a number between two consecutive powers of two, and the
  values at the numbers that the record sets for the ward ranking produce.
\<close>

lemma binary64_at:
  assumes "0 < x" "2 powr of_int e \<le> x" "x < 2 powr (of_int e + 1)"
  shows "binary64 x = of_int (round_half_even (x / 2 powr of_int (e - 52))) * 2 powr of_int (e - 52)"
proof -
  have "of_int e \<le> log 2 x"
    using assms by (simp add: le_log_iff)
  moreover have "log 2 x < of_int e + 1"
    using assms by (simp add: log_less_iff)
  ultimately have "\<lfloor>log 2 x\<rfloor> = e"
    by (simp add: floor_unique)
  with assms(1) show ?thesis
    by (simp add: binary64_def Let_def)
qed

lemma pow2_nat: "(2::real) powr (real n) = 2 ^ n"
  by (simp add: powr_realpow)

lemma pow2_neg: "(2::real) powr (- real n) = 1 / 2 ^ n"
  by (simp add: powr_minus powr_realpow inverse_eq_divide)

lemma pow2_succ: "(2::real) powr (y + 1) = 2 * 2 powr y"
  by (simp add: powr_add)

lemma binary64_pos:
  assumes "2 ^ n \<le> x" "x < 2 * 2 ^ n" "n \<le> 52"
  shows "binary64 x = of_int (round_half_even (x * 2 ^ (52 - n))) / 2 ^ (52 - n)"
proof -
  have "(0::real) < 2 ^ n" by simp
  with assms(1) have pos: "0 < x" by linarith
  have e: "real_of_int (int n) = real n" by simp
  have a1: "2 powr real_of_int (int n) \<le> x"
    unfolding e pow2_nat by (rule assms(1))
  have a2: "x < 2 powr (real_of_int (int n) + 1)"
    unfolding e pow2_succ pow2_nat by (rule assms(2))
  have "real_of_int (int n - 52) = - real (52 - n)"
    using assms(3) by simp
  then have p3: "(2::real) powr real_of_int (int n - 52) = 1 / 2 ^ (52 - n)"
    by (simp only: pow2_neg)
  from binary64_at [OF pos a1 a2]
  have "binary64 x = of_int (round_half_even (x / 2 powr real_of_int (int n - 52)))
          * 2 powr real_of_int (int n - 52)" .
  then show ?thesis unfolding p3 by simp
qed

lemma binary64_neg:
  assumes "1 \<le> x * 2 ^ n" "x * 2 ^ n < 2"
  shows "binary64 x = of_int (round_half_even (x * 2 ^ (52 + n))) / 2 ^ (52 + n)"
proof -
  have two: "(0::real) < 2 ^ n" by simp
  have pos: "0 < x"
  proof (rule ccontr)
    assume "\<not> 0 < x"
    then have "x * 2 ^ n \<le> 0" using two by (simp add: mult_le_0_iff)
    with assms(1) show False by linarith
  qed
  have e: "real_of_int (- int n) = - real n" by simp
  have a1: "2 powr real_of_int (- int n) \<le> x"
    unfolding e pow2_neg using assms(1) two by (simp add: field_simps)
  have a2: "x < 2 powr (real_of_int (- int n) + 1)"
    unfolding e pow2_succ pow2_neg using assms(2) two by (simp add: field_simps)
  have "real_of_int (- int n - 52) = - real (52 + n)" by simp
  then have p3: "(2::real) powr real_of_int (- int n - 52) = 1 / 2 ^ (52 + n)"
    by (simp only: pow2_neg)
  from binary64_at [OF pos a1 a2]
  have "binary64 x = of_int (round_half_even (x / 2 powr real_of_int (- int n - 52)))
          * 2 powr real_of_int (- int n - 52)" .
  then show ?thesis unfolding p3 by simp
qed

lemma round_half_even_of_int: "round_half_even (of_int z) = z"
  by (simp add: round_half_even_def)

lemma binary64_zero: "binary64 0 = 0"
  by (simp add: binary64_def)

lemma binary64_nat:
  assumes "0 < k" "k < 2 ^ 53"
  shows "binary64 (real k) = real k"
proof -
  from assms(1) have "1 \<le> k" by simp
  from ex_power_ivl1 [of 2 k, OF _ this]
  obtain n where n: "2 ^ n \<le> k" "k < 2 ^ (n + 1)" by auto
  have "(2::nat) ^ n < 2 ^ 53" using n(1) assms(2) by linarith
  then have "n < 53" by (rule power_less_imp_less_exp [rotated]) simp
  then have le: "n \<le> 52" by simp
  have a1: "(2::real) ^ n \<le> real k"
    using n(1) by (metis of_nat_le_iff of_nat_numeral of_nat_power)
  have a2: "real k < 2 * 2 ^ n"
    using n(2) by (metis of_nat_less_iff of_nat_numeral of_nat_power power_Suc Suc_eq_plus1)
  have "real k * 2 ^ (52 - n) = of_int (int (k * 2 ^ (52 - n)))" by simp
  then have r: "round_half_even (real k * 2 ^ (52 - n)) = int (k * 2 ^ (52 - n))"
    by (simp only: round_half_even_of_int)
  from binary64_pos [OF a1 a2 le] show ?thesis
    unfolding r by simp
qed

lemma binary64_value_1: "binary64 (5404319552844595 / 27021597764222976) = 7205759403792793 / 36028797018963968"
  using binary64_neg [of "5404319552844595 / 27021597764222976" 3] by (simp add: round_half_even_def)

lemma binary64_value_2: "binary64 (1 / 5) = 3602879701896397 / 18014398509481984"
  using binary64_neg [of "1 / 5" 3] by (simp add: round_half_even_def)

lemma binary64_value_3: "binary64 (3602879701896397 / 18014398509481984) = 3602879701896397 / 18014398509481984"
  using binary64_neg [of "3602879701896397 / 18014398509481984" 3] by (simp add: round_half_even_def)

lemma binary64_value_4: "binary64 (3 / 10) = 5404319552844595 / 18014398509481984"
  using binary64_neg [of "3 / 10" 2] by (simp add: round_half_even_def)

lemma binary64_value_5: "binary64 (2345624805922133 / 7036874417766400) = 1501199875790165 / 4503599627370496"
  using binary64_neg [of "2345624805922133 / 7036874417766400" 2] by (simp add: round_half_even_def)

lemma binary64_value_6: "binary64 (1 / 3) = 6004799503160661 / 18014398509481984"
  using binary64_neg [of "1 / 3" 2] by (simp add: round_half_even_def)

lemma binary64_value_7: "binary64 (1 / 2) = 1 / 2"
  using binary64_neg [of "1 / 2" 1] by (simp add: round_half_even_def)

lemma binary64_value_8: "binary64 (3 / 5) = 5404319552844595 / 9007199254740992"
  using binary64_neg [of "3 / 5" 1] by (simp add: round_half_even_def)

lemma binary64_value_9: "binary64 (9 / 10) = 8106479329266893 / 9007199254740992"
  using binary64_neg [of "9 / 10" 1] by (simp add: round_half_even_def)

lemma binary64_value_10: "binary64 (1200959900632132 / 1080863910568919) = 5003999585967217 / 4503599627370496"
  using binary64_pos [of 0 "1200959900632132 / 1080863910568919"] by (simp add: round_half_even_def)

lemma binary64_value_11: "binary64 (9007199254740992 / 8106479329266893) = 2501999792983609 / 2251799813685248"
  using binary64_pos [of 0 "9007199254740992 / 8106479329266893"] by (simp add: round_half_even_def)

lemma binary64_value_12: "binary64 (6004799503160661 / 5404319552844595) = 2501999792983609 / 2251799813685248"
  using binary64_pos [of 0 "6004799503160661 / 5404319552844595"] by (simp add: round_half_even_def)

lemma binary64_value_13: "binary64 (180143985094819825 / 9007199254740992) = 20"
  using binary64_pos [of 4 "180143985094819825 / 9007199254740992"] by (simp add: round_half_even_def)

lemma binary64_value_14: "binary64 (90071992547409925 / 4503599627370496) = 20"
  using binary64_pos [of 4 "90071992547409925 / 4503599627370496"] by (simp add: round_half_even_def)

lemma binary64_value_15: "binary64 (150119987579016525 / 4503599627370496) = 2345624805922133 / 70368744177664"
  using binary64_pos [of 5 "150119987579016525 / 4503599627370496"] by (simp add: round_half_even_def)

lemma binary64_value_16: "binary64 (135107988821114875 / 2251799813685248) = 60"
  using binary64_pos [of 5 "135107988821114875 / 2251799813685248"] by (simp add: round_half_even_def)

lemma binary64_value_17: "binary64 (125099989649180425 / 1125899906842624) = 7818749353073777 / 70368744177664"
  using binary64_pos [of 6 "125099989649180425 / 1125899906842624"] by (simp add: round_half_even_def)

lemma binary64_value_18: "binary64 (62549994824590225 / 562949953421312) = 3909374676536889 / 35184372088832"
  using binary64_pos [of 6 "62549994824590225 / 562949953421312"] by (simp add: round_half_even_def)

lemma binary64_integers:
  "binary64 1 = 1" "binary64 2 = 2" "binary64 3 = 3" "binary64 100 = 100" "binary64 200 = 200" "binary64 300 = 300" "binary64 500 = 500" "binary64 600 = 600" "binary64 900 = 900" "binary64 1000 = 1000" "binary64 2000 = 2000" "binary64 3000 = 3000" "binary64 4000 = 4000" "binary64 5000 = 5000" "binary64 6000 = 6000" "binary64 9000 = 9000" "binary64 12000 = 12000" "binary64 15000 = 15000"
  using binary64_nat [of 1] binary64_nat [of 2] binary64_nat [of 3] binary64_nat [of 100] binary64_nat [of 200] binary64_nat [of 300] binary64_nat [of 500] binary64_nat [of 600] binary64_nat [of 900] binary64_nat [of 1000] binary64_nat [of 2000] binary64_nat [of 3000] binary64_nat [of 4000] binary64_nat [of 5000] binary64_nat [of 6000] binary64_nat [of 9000] binary64_nat [of 12000] binary64_nat [of 15000]
  by simp_all

lemmas binary64_values =
  binary64_zero binary64_integers binary64_value_1 binary64_value_2 binary64_value_3 binary64_value_4 binary64_value_5 binary64_value_6 binary64_value_7 binary64_value_8 binary64_value_9 binary64_value_10 binary64_value_11 binary64_value_12 binary64_value_13 binary64_value_14 binary64_value_15 binary64_value_16 binary64_value_17 binary64_value_18

subsection \<open>The ranking on doubles\<close>

lemma ward_service_fields:
  "ward (ward_service w c r) = Some w"
  "estimated_cost (ward_service w c r) = Some c"
  "service_result (ward_service w c r) = Some r"
  "cost_or_zero (ward_service w c r) = c"
  by (simp_all add: ward_service_def cost_or_zero_def)

lemma tie_filter:
  "filter (\<lambda>s. ward s = Some k) example_rounding_tie =
     (if k = 3 then [ward_service 3 300 ''PASS'', ward_service 3 300 ''FAIL'',
                     ward_service 3 300 ''FAIL'']
      else if k = 5 then [ward_service 5 900 ''PASS''] else [])"
  by (simp add: example_rounding_tie_def ward_service_fields)

lemma tie_total:
  "wm_totalServices (rounded_ward_metrics fl example_rounding_tie k)
     = (if k = 3 then 3 else if k = 5 then 1 else 0)"
  by (simp add: rounded_ward_metrics_def Let_def tie_filter)

lemma tie_validWards:
  "validWards (calculateWardAnalysis_rounded fl example_rounding_tie)
     = [rounded_ward_metrics fl example_rounding_tie 3, rounded_ward_metrics fl example_rounding_tie 5]"
  by (simp add: rounded_validWards_eq upto_1_25 tie_total)

lemma tie_ward3:
  "wm_costEfficiency (rounded_ward_metrics binary64 example_rounding_tie 3)
     = 2501999792983609 / 2251799813685248"
  "efficiencyScore (rounded_efficiency_item binary64 (rounded_ward_metrics binary64 example_rounding_tie 3))
     = 7818749353073777 / 70368744177664"
  by (simp_all add: rounded_efficiency_item_def rounded_ward_metrics_def Let_def tie_filter
      rounded_sum_cost_def ward_service_fields binary64_values)

lemma tie_ward5:
  "wm_costEfficiency (rounded_ward_metrics binary64 example_rounding_tie 5)
     = 2501999792983609 / 2251799813685248"
  "efficiencyScore (rounded_efficiency_item binary64 (rounded_ward_metrics binary64 example_rounding_tie 5))
     = 3909374676536889 / 35184372088832"
  by (simp_all add: rounded_efficiency_item_def rounded_ward_metrics_def Let_def tie_filter
      rounded_sum_cost_def ward_service_fields binary64_values)

lemma rounded_ranking_projection:
  "map (\<lambda>a. (ei_ward a, efficiencyScore a))
     (wardEfficiencyRanking (calculateWardAnalysis_rounded fl services))
   = map (\<lambda>a. (ei_ward a, efficiencyScore a))
       (sort_key (\<lambda>item. - efficiencyScore item)
          (map (rounded_efficiency_item fl)
             (validWards (calculateWardAnalysis_rounded fl services))))"
  unfolding rounded_ranking_eq by (rule ranked_projection)

lemma tie_ranking:
  "map (\<lambda>a. (ei_ward a, efficiencyScore a))
     (wardEfficiencyRanking (calculateWardAnalysis_rounded binary64 example_rounding_tie))
   = [(5, 3909374676536889 / 35184372088832), (3, 7818749353073777 / 70368744177664)]"
  by (simp add: rounded_ranking_projection tie_validWards tie_ward3 tie_ward5)

lemma order_filter:
  "filter (\<lambda>s. ward s = Some k) example_rounding_order =
     (if k = 3 then [ward_service 3 3000 ''PASS'', ward_service 3 3000 ''PASS'',
                     ward_service 3 3000 ''PASS'', ward_service 3 3000 ''FAIL'',
                     ward_service 3 3000 ''FAIL'']
      else if k = 5 then [ward_service 5 1000 ''PASS'', ward_service 5 1000 ''FAIL'',
                          ward_service 5 1000 ''FAIL'', ward_service 5 1000 ''FAIL'',
                          ward_service 5 1000 ''FAIL'']
      else [])"
  by (simp add: example_rounding_order_def ward_service_fields)

lemma order_total:
  "wm_totalServices (rounded_ward_metrics fl example_rounding_order k)
     = (if k = 3 then 5 else if k = 5 then 5 else 0)"
  by (simp add: rounded_ward_metrics_def Let_def order_filter)

lemma order_validWards:
  "validWards (calculateWardAnalysis_rounded fl example_rounding_order)
     = [rounded_ward_metrics fl example_rounding_order 3,
        rounded_ward_metrics fl example_rounding_order 5]"
  by (simp add: rounded_validWards_eq upto_1_25 order_total)

lemma order_ward3:
  "wm_costEfficiency (rounded_ward_metrics binary64 example_rounding_order 3)
     = 7205759403792793 / 36028797018963968"
  "efficiencyScore (rounded_efficiency_item binary64 (rounded_ward_metrics binary64 example_rounding_order 3))
     = 20"
  by (simp_all add: rounded_efficiency_item_def rounded_ward_metrics_def Let_def order_filter
      rounded_sum_cost_def ward_service_fields binary64_values)

lemma order_ward5:
  "wm_costEfficiency (rounded_ward_metrics binary64 example_rounding_order 5)
     = 3602879701896397 / 18014398509481984"
  "efficiencyScore (rounded_efficiency_item binary64 (rounded_ward_metrics binary64 example_rounding_order 5))
     = 20"
  by (simp_all add: rounded_efficiency_item_def rounded_ward_metrics_def Let_def order_filter
      rounded_sum_cost_def ward_service_fields binary64_values)

lemma order_ranking:
  "map (\<lambda>a. (ei_ward a, efficiencyScore a))
     (wardEfficiencyRanking (calculateWardAnalysis_rounded binary64 example_rounding_order))
   = [(3, 20), (5, 20)]"
  by (simp add: rounded_ranking_projection order_validWards order_ward3 order_ward5)

lemma ranking_filter:
  "filter (\<lambda>s. ward s = Some k) example_ranking =
     (if k = 7 then [ward_service 7 1000 ''PASS'']
      else if k = 9 then [ward_service 9 1000 ''FAIL'']
      else if k = 3 then [ward_service 3 1000 ''PASS'']
      else if k = 5 then [ward_service 5 500 ''PASS''] else [])"
  by (simp add: example_ranking_def ward_service_fields)

lemma ranking_total:
  "wm_totalServices (rounded_ward_metrics fl example_ranking k)
     = (if k \<in> {3, 5, 7, 9} then 1 else 0)"
  by (simp add: rounded_ward_metrics_def Let_def ranking_filter)

lemma ranking_validWards:
  "validWards (calculateWardAnalysis_rounded fl example_ranking)
     = map (rounded_ward_metrics fl example_ranking) [3, 5, 7, 9]"
  by (simp add: rounded_validWards_eq upto_1_25 ranking_total)

lemma ranking_scores:
  "efficiencyScore (rounded_efficiency_item binary64 (rounded_ward_metrics binary64 example_ranking 3)) = 100"
  "efficiencyScore (rounded_efficiency_item binary64 (rounded_ward_metrics binary64 example_ranking 5)) = 200"
  "efficiencyScore (rounded_efficiency_item binary64 (rounded_ward_metrics binary64 example_ranking 7)) = 100"
  "efficiencyScore (rounded_efficiency_item binary64 (rounded_ward_metrics binary64 example_ranking 9)) = 0"
  by (simp_all add: rounded_efficiency_item_def rounded_ward_metrics_def Let_def ranking_filter
      rounded_sum_cost_def ward_service_fields binary64_values)

lemma ranking_ranking:
  "map (\<lambda>a. (ei_ward a, efficiencyScore a))
     (wardEfficiencyRanking (calculateWardAnalysis_rounded binary64 example_ranking))
   = [(5, 200), (3, 100), (7, 100), (9, 0)]"
  by (simp add: rounded_ranking_projection ranking_validWards ranking_scores)

lemma upt_1_5: "[1..<5] = [1, 2, 3, 4]"
  by code_simp

theorem ward_ranking_by_efficiencyScore_witness:
  "map wm_ward (validWards (calculateWardAnalysis_rounded binary64 example_ranking)) = [3, 5, 7, 9]
   \<and> map (\<lambda>a. (ei_ward a, efficiencyScore a))
         (wardEfficiencyRanking (calculateWardAnalysis_rounded binary64 example_ranking))
       = [(5, 200), (3, 100), (7, 100), (9, 0)]
   \<and> map rank (wardEfficiencyRanking (calculateWardAnalysis_rounded binary64 example_ranking))
       = [1, 2, 3, 4]"
proof -
  have v: "map wm_ward (validWards (calculateWardAnalysis_rounded binary64 example_ranking))
      = [3, 5, 7, 9]"
    by (simp add: ranking_validWards)
  have len: "length (validWards (calculateWardAnalysis_rounded binary64 example_ranking)) + 1 = 5"
    by (simp add: ranking_validWards)
  from ward_ranking_by_efficiencyScore [of binary64 example_ranking]
  have "map rank (wardEfficiencyRanking (calculateWardAnalysis_rounded binary64 example_ranking))
      = [1..<length (validWards (calculateWardAnalysis_rounded binary64 example_ranking)) + 1]"
    by blast
  then have r: "map rank (wardEfficiencyRanking (calculateWardAnalysis_rounded binary64 example_ranking))
      = [1, 2, 3, 4]"
    by (simp only: len upt_1_5)
  from v ranking_ranking r show ?thesis by blast
qed

text \<open>
  Claim C4 as stated fails on doubles. In the first record set wards 3 and 5 report the same
  cost efficiency, 1.1111111111111112, and the ranking puts ward 5 before ward 3, their
  efficiency scores being 111.1111111111111 and 111.11111111111111. In the second record set
  both wards have the efficiency score 20, so ward 3 is ranked first, although its cost
  efficiency, 0.19999999999999998, is below that of ward 5, 0.2.
\<close>

theorem ward_ranking_costEfficiency_counterexample:
  "map (\<lambda>w. (wm_ward w, wm_costEfficiency w))
     (validWards (calculateWardAnalysis_rounded binary64 example_rounding_tie))
     = [(3, 2501999792983609 / 2251799813685248), (5, 2501999792983609 / 2251799813685248)]
   \<and> map ei_ward (wardEfficiencyRanking (calculateWardAnalysis_rounded binary64 example_rounding_tie))
     = [5, 3]
   \<and> map (\<lambda>w. (wm_ward w, wm_costEfficiency w))
       (validWards (calculateWardAnalysis_rounded binary64 example_rounding_order))
     = [(3, 7205759403792793 / 36028797018963968), (5, 3602879701896397 / 18014398509481984)]
   \<and> (7205759403792793 / 36028797018963968 :: real) < 3602879701896397 / 18014398509481984
   \<and> map ei_ward (wardEfficiencyRanking (calculateWardAnalysis_rounded binary64 example_rounding_order))
     = [3, 5]"
proof -
  have t1: "map (\<lambda>w. (wm_ward w, wm_costEfficiency w))
     (validWards (calculateWardAnalysis_rounded binary64 example_rounding_tie))
     = [(3, 2501999792983609 / 2251799813685248), (5, 2501999792983609 / 2251799813685248)]"
    by (simp add: tie_validWards tie_ward3 tie_ward5)
  have t2: "map ei_ward (wardEfficiencyRanking (calculateWardAnalysis_rounded binary64 example_rounding_tie))
     = [5, 3]"
    using arg_cong [OF tie_ranking, of "map fst"] by (simp add: comp_def)
  have o1: "map (\<lambda>w. (wm_ward w, wm_costEfficiency w))
       (validWards (calculateWardAnalysis_rounded binary64 example_rounding_order))
     = [(3, 7205759403792793 / 36028797018963968), (5, 3602879701896397 / 18014398509481984)]"
    by (simp add: order_validWards order_ward3 order_ward5)
  have o2: "(7205759403792793 / 36028797018963968 :: real) < 3602879701896397 / 18014398509481984"
    by simp
  have o3: "map ei_ward (wardEfficiencyRanking (calculateWardAnalysis_rounded binary64 example_rounding_order))
     = [3, 5]"
    using arg_cong [OF order_ranking, of "map fst"] by (simp add: comp_def)
  from t1 t2 o1 o2 o3 show ?thesis by blast
qed

subsection \<open>Wards outside the valid range\<close>

lemma ward_metrics_ignores_invalid:
  assumes "1 \<le> k" "k \<le> 25"
  shows "ward_metrics (filter (\<lambda>s. \<not> invalid_ward s) services) k = ward_metrics services k"
proof -
  have "filter (\<lambda>s. ward s = Some k) (filter (\<lambda>s. \<not> invalid_ward s) services)
      = filter (\<lambda>s. ward s = Some k) services"
    using assms by (auto simp: invalid_ward_def intro: filter_cong)
  then show ?thesis by (simp add: ward_metrics_def)
qed

lemma validWards_ignore_invalid:
  "validWards (calculateWardAnalysis (filter (\<lambda>s. \<not> invalid_ward s) services))
     = validWards (calculateWardAnalysis services)"
proof -
  have eq: "map (ward_metrics (filter (\<lambda>s. \<not> invalid_ward s) services)) [1..25]
      = map (ward_metrics services) [1..25]"
    by (rule map_cong [OF refl]) (simp add: ward_metrics_ignores_invalid)
  show ?thesis by (simp only: validWards_eq eq)
qed

text \<open>
  Claim C5, as amended. For every record set a record whose ward is a number outside 1 to 25
  never contributes to a valid ward entry: the valid wards are those of the record set without
  such records, and each has a ward number from 1 to 25. The anomaly block counts exactly the
  records of ward 66; records of any other ward outside 1 to 25 are not counted in it.
\<close>

theorem invalid_wards_outside_validWards:
  "validWards (calculateWardAnalysis (filter (\<lambda>s. \<not> invalid_ward s) services))
     = validWards (calculateWardAnalysis services)
   \<and> (\<forall>w \<in> set (validWards (calculateWardAnalysis services)). 1 \<le> wm_ward w \<and> wm_ward w \<le> 25)
   \<and> w66_count (invalidWard66 (calculateWardAnalysis services))
     = length (filter (\<lambda>s. ward s = Some 66) services)
   \<and> w66_count (invalidWard66 (calculateWardAnalysis services))
     \<le> length (filter invalid_ward services)"
proof -
  have range: "\<forall>w \<in> set (validWards (calculateWardAnalysis services)). 1 \<le> wm_ward w \<and> wm_ward w \<le> 25"
    using validWards_member [of _ services] by fastforce
  have cnt: "w66_count (invalidWard66 (calculateWardAnalysis services))
     = length (filter (\<lambda>s. ward s = Some 66) services)"
    by (simp add: calculateWardAnalysis_def Let_def)
  have "filter (\<lambda>s. ward s = Some 66) services
      = filter (\<lambda>s. ward s = Some 66) (filter invalid_ward services)"
    by (auto simp: invalid_ward_def intro: filter_cong)
  then have "length (filter (\<lambda>s. ward s = Some 66) services) \<le> length (filter invalid_ward services)"
    by (metis length_filter_le)
  with validWards_ignore_invalid [of services] range cnt show ?thesis by simp
qed


theorem invalid_wards_outside_validWards_witness:
  "filter (\<lambda>s. \<not> invalid_ward s) example_anomalies = [example_service]
   \<and> validWards (calculateWardAnalysis example_anomalies)
       = validWards (calculateWardAnalysis [example_service])
   \<and> w66_count (invalidWard66 (calculateWardAnalysis example_anomalies)) = 1
   \<and> length (filter invalid_ward example_anomalies) = 2"
proof -
  have f: "filter (\<lambda>s. \<not> invalid_ward s) example_anomalies = [example_service]"
    by (simp add: example_anomalies_def example_ward30_def example_service_def invalid_ward_def)
  have n: "length (filter invalid_ward example_anomalies) = 2"
    by (simp add: example_anomalies_def example_ward30_def example_service_def invalid_ward_def)
  have c: "length (filter (\<lambda>s. ward s = Some 66) example_anomalies) = 1"
    by (simp add: example_anomalies_def example_ward30_def example_service_def)
  from invalid_wards_outside_validWards [of example_anomalies] f c
  have "validWards (calculateWardAnalysis example_anomalies)
       = validWards (calculateWardAnalysis [example_service])
     \<and> w66_count (invalidWard66 (calculateWardAnalysis example_anomalies)) = 1"
    by simp
  with f n show ?thesis by blast
qed

text \<open>
  Claim C5 as stated fails: a record of ward 30 is outside 1 to 25 and the anomaly block
  counts no record.
\<close>

theorem anomaly_count_counterexample:
  "invalid_ward example_ward30
   \<and> length (filter invalid_ward [example_ward30]) = 1
   \<and> w66_count (invalidWard66 (calculateWardAnalysis [example_ward30])) = 0"
  by (simp add: calculateWardAnalysis_def Let_def example_ward30_def example_service_def
      invalid_ward_def)

subsection \<open>Cost efficiency per month\<close>

lemma month_row_efficiency:
  "ts_costEfficiency (month_row sd i)
     = 100 * group_efficiency (ts_passRate (month_row sd i)) (ts_avgCost (month_row sd i))"
  by (simp add: month_row_def Let_def group_efficiency_def)

text \<open>
  Claim C9, as amended. For every month group the cost efficiency of the time series is 100
  times the group efficiency formula at the month's pass rate and average cost: the pass rate
  as a percentage over the average cost in thousands when the average cost is positive, and 0
  otherwise. The cost efficiency of a valid ward is the group efficiency formula itself, so
  on the same pass rate and average cost the monthly figure is 100 times the ward figure; it
  equals the efficiency score of the ward ranking.
\<close>

theorem monthly_efficiency_scaled:
  "(\<forall>m \<in> set (calculateEnhancedTimeSeriesData formatYearMonth services).
      ts_costEfficiency m = 100 * group_efficiency (ts_passRate m) (ts_avgCost m))
   \<and> (\<forall>w \<in> set (validWards (calculateWardAnalysis services)).
      wm_costEfficiency w = group_efficiency (wm_passRate w) (wm_avgCost w))
   \<and> (\<forall>w \<in> set (validWards (calculateWardAnalysis services)).
      efficiencyScore (efficiency_item w) = 100 * group_efficiency (wm_passRate w) (wm_avgCost w))"
proof (intro conjI ballI)
  fix m assume "m \<in> set (calculateEnhancedTimeSeriesData formatYearMonth services)"
  then obtain sd i where "m = month_row sd i"
    by (auto simp: calculateEnhancedTimeSeriesData_def Let_def)
  then show "ts_costEfficiency m = 100 * group_efficiency (ts_passRate m) (ts_avgCost m)"
    by (simp add: month_row_efficiency)
next
  fix w assume "w \<in> set (validWards (calculateWardAnalysis services))"
  then obtain k where "w = ward_metrics services k"
    using validWards_member by blast
  then show "wm_costEfficiency w = group_efficiency (wm_passRate w) (wm_avgCost w)"
    by (simp add: ward_metrics_group_efficiency)
next
  fix w assume "w \<in> set (validWards (calculateWardAnalysis services))"
  then obtain k where "w = ward_metrics services k"
    using validWards_member by blast
  then show "efficiencyScore (efficiency_item w) = 100 * group_efficiency (wm_passRate w) (wm_avgCost w)"
    using efficiencyScore_scaled [of services k] ward_metrics_group_efficiency [of services k] by simp
qed

lemma example_months_series:
  "map (\<lambda>m. (ts_period m, ts_passRate m, ts_avgCost m, ts_costEfficiency m))
     (calculateEnhancedTimeSeriesData example_formatYearMonth example_months)
   = [(''2023-10'', 100, 1000, 100), (''2023-11'', 50, 2000, 25)]"
  by (simp add: calculateEnhancedTimeSeriesData_def monthly_step_def month_row_def month_add_def
      example_months_def example_november_def example_service_def example_formatYearMonth_def
      cost_or_zero_def Let_def)

theorem monthly_efficiency_scaled_witness:
  "map ts_period (calculateEnhancedTimeSeriesData example_formatYearMonth example_months)
     = [''2023-10'', ''2023-11'']
   \<and> ts_passRate (hd (calculateEnhancedTimeSeriesData example_formatYearMonth example_months)) = 100
   \<and> ts_avgCost (hd (calculateEnhancedTimeSeriesData example_formatYearMonth example_months)) = 1000
   \<and> ts_costEfficiency (hd (calculateEnhancedTimeSeriesData example_formatYearMonth example_months))
       = 100 * group_efficiency 100 1000"
proof -
  let ?ts = "calculateEnhancedTimeSeriesData example_formatYearMonth example_months"
  have periods: "map ts_period ?ts = [''2023-10'', ''2023-11'']"
    using arg_cong [OF example_months_series, of "map fst"] by (simp add: comp_def)
  then have ne: "?ts \<noteq> []" by auto
  then have mem: "hd ?ts \<in> set ?ts" by simp
  have "map (\<lambda>m. (ts_passRate m, ts_avgCost m)) ?ts = [(100, 1000), (50, 2000)]"
    using arg_cong [OF example_months_series, of "map (\<lambda>q. (fst (snd q), fst (snd (snd q))))"]
    by (simp add: comp_def)
  then have hd_vals: "ts_passRate (hd ?ts) = 100 \<and> ts_avgCost (hd ?ts) = 1000"
    by (cases ?ts) auto
  from monthly_efficiency_scaled [of example_formatYearMonth example_months] mem
  have "ts_costEfficiency (hd ?ts)
      = 100 * group_efficiency (ts_passRate (hd ?ts)) (ts_avgCost (hd ?ts))"
    by blast
  with hd_vals periods show ?thesis by simp
qed

text \<open>
  Claim C9 as stated fails: for the example record alone the month has pass rate 100 and
  average cost 1000, the group efficiency formula gives 1, which is the cost efficiency of
  its ward, and the time series reports 100.
\<close>

theorem monthly_efficiency_counterexample:
  "map (\<lambda>m. (ts_passRate m, ts_avgCost m, ts_costEfficiency m))
     (calculateEnhancedTimeSeriesData example_formatYearMonth [example_service])
     = [(100, 1000, 100)]
   \<and> group_efficiency 100 1000 = 1
   \<and> map (\<lambda>w. (wm_passRate w, wm_avgCost w, wm_costEfficiency w))
       (validWards (calculateWardAnalysis [example_service]))
     = [(100, 1000, 1)]"
proof -
  have ts: "map (\<lambda>m. (ts_passRate m, ts_avgCost m, ts_costEfficiency m))
     (calculateEnhancedTimeSeriesData example_formatYearMonth [example_service])
     = [(100, 1000, 100)]"
    by (simp add: calculateEnhancedTimeSeriesData_def monthly_step_def month_row_def
        month_add_def example_service_def example_formatYearMonth_def cost_or_zero_def Let_def)
  have g: "group_efficiency 100 1000 = 1"
    by (simp add: group_efficiency_def)
  have total: "wm_totalServices (ward_metrics [example_service] k) = (if k = 5 then 1 else 0)" for k
    by (simp add: ward_metrics_def Let_def example_service_def)
  have v: "validWards (calculateWardAnalysis [example_service])
      = [ward_metrics [example_service] 5]"
    by (simp add: validWards_eq upto_1_25 total)
  have w: "map (\<lambda>w. (wm_passRate w, wm_avgCost w, wm_costEfficiency w))
       (validWards (calculateWardAnalysis [example_service]))
     = [(100, 1000, 1)]"
    unfolding v
    by (simp add: ward_metrics_def Let_def sum_cost_def cost_or_zero_def example_service_def)
  from ts g w show ?thesis by blast
qed

subsection \<open>Cost bins\<close>

lemma upt_0_6: "[0..<6] = [0, 1, 2, 3, 4, 5]"
  by code_simp

lemma ex_costs: "positive_costs example_costs = [10, 20, 30, 40]"
  by (simp add: positive_costs_def example_costs_def example_service_def cost_or_zero_def)

lemma ex_closed: "closed_bins [10, 20, 30, 40] 10 40 5 6 =
   [\<lparr>bin_min = 10, bin_max = 15, bin_count = 1, percentage = 25\<rparr>,
    \<lparr>bin_min = 15, bin_max = 20, bin_count = 1, percentage = 25\<rparr>,
    \<lparr>bin_min = 20, bin_max = 25, bin_count = 1, percentage = 25\<rparr>,
    \<lparr>bin_min = 25, bin_max = 30, bin_count = 1, percentage = 25\<rparr>,
    \<lparr>bin_min = 30, bin_max = 35, bin_count = 1, percentage = 25\<rparr>,
    \<lparr>bin_min = 35, bin_max = 40, bin_count = 1, percentage = 25\<rparr>]"
  by (simp add: closed_bins_def push_bin_def upt_0_6)

lemma ex_bins: "calculateCostDistribution example_costs = closed_bins [10, 20, 30, 40] 10 40 5 6"
  by (simp add: calculateCostDistribution_def ex_costs Let_def)

text \<open>
  Claim C3 at a failing input. Four records with the costs 10, 20, 30 and 40 have four
  positive costs. The binner returns six bins of width 5 that are closed at both ends; the
  costs 20 and 30 lie on a bound shared by two bins and are counted in both. The counts sum
  to 6 and the percentages to 150.
\<close>

theorem cost_bins_count_boundaries_twice:
  "length (positive_costs example_costs) = 4
   \<and> map (\<lambda>b. (bin_min b, bin_max b, bin_count b)) (calculateCostDistribution example_costs)
     = [(10, 15, 1), (15, 20, 1), (20, 25, 1), (25, 30, 1), (30, 35, 1), (35, 40, 1)]
   \<and> sum_list (map bin_count (calculateCostDistribution example_costs)) = 6
   \<and> sum_list (map percentage (calculateCostDistribution example_costs)) = 150"
  by (simp add: ex_costs ex_bins ex_closed)

theorem cost_bins_count_boundaries_twice_witness:
  "sum_list (map bin_count (calculateCostDistribution example_costs))
     \<noteq> length (positive_costs example_costs)"
  using cost_bins_count_boundaries_twice by simp


end
